theory Spec2Isabelle
  imports Complex_Main
begin

section \<open>The JavaScript values the server computes with\<close>

text \<open>
  The server (\<^verbatim>\<open>src/server.js\<close>, and its older variant \<^verbatim>\<open>src/unnamed/part_000\<close>)
  is written against the JavaScript \<^verbatim>\<open>Date\<close> object. A \<^verbatim>\<open>Date\<close> holds a time value:
  a number of milliseconds since the epoch, or \<^verbatim>\<open>NaN\<close> (an Invalid Date). Integral
  numbers are modelled as \<open>int\<close>, and a number that may be \<^verbatim>\<open>NaN\<close> as \<open>int option\<close>
  with \<open>None\<close> for \<^verbatim>\<open>NaN\<close>. (A JavaScript number is a double: it agrees with the
  integer as long as the magnitude stays below \<open>2 ^ 53\<close>, which every time value does.)
\<close>

type_synonym jsnum = "int option"

text \<open>
  A query parameter is \<^verbatim>\<open>undefined\<close> when absent and a string otherwise; the older
  variant of \<^verbatim>\<open>/tempdata\<close> also passes a number as the filter value. A string is a
  list of code units below 256 (\<open>char\<close>); parameters with other characters are outside
  the model.
\<close>

datatype jsval = Undefined | Str string | Number jsnum

text \<open>\<^verbatim>\<open>a === b\<close> on numbers: \<^verbatim>\<open>NaN\<close> equals nothing, not even itself.\<close>

fun strict_eq :: "jsnum \<Rightarrow> jsnum \<Rightarrow> bool" where
  "strict_eq (Some a) (Some b) = (a = b)"
| "strict_eq _ _ = False"

text \<open>
  Truthiness, as \<^verbatim>\<open>date ? ... : ...\<close> tests it: \<^verbatim>\<open>undefined\<close>, the empty string,
  \<^verbatim>\<open>0\<close> and \<^verbatim>\<open>NaN\<close> are falsy.
\<close>

fun truthy :: "jsval \<Rightarrow> bool" where
  "truthy Undefined = False"
| "truthy (Str s) = (s \<noteq> [])"
| "truthy (Number None) = False"
| "truthy (Number (Some n)) = (n \<noteq> 0)"

subsection \<open>Time values and calendar fields (ECMA-262, Date objects)\<close>

definition msPerDay :: int where
  "msPerDay = 86400000"

definition msPerHour :: int where
  "msPerHour = 3600000"

definition Day :: "int \<Rightarrow> int" where
  "Day t = t div msPerDay"

definition DayFromYear :: "int \<Rightarrow> int" where
  "DayFromYear y =
     365 * (y - 1970) + (y - 1969) div 4 - (y - 1901) div 100 + (y - 1601) div 400"

text \<open>
  \<^verbatim>\<open>YearFromTime(t)\<close> is the largest \<open>y\<close> with \<open>DayFromYear y \<le> Day t\<close>. It is
  computed from an estimate that is off by at most one year
  (lemma \<open>YearFromTime_spec\<close> below).
\<close>

definition YearFromTime :: "int \<Rightarrow> int" where
  "YearFromTime t =
     (let d = Day t; y = 1970 + (400 * d) div 146097
      in if DayFromYear (y + 1) \<le> d then y + 1
         else if DayFromYear y \<le> d then y
         else y - 1)"

definition InLeapYear :: "int \<Rightarrow> int" where
  "InLeapYear t =
     (let y = YearFromTime t in DayFromYear (y + 1) - DayFromYear y - 365)"

definition DayWithinYear :: "int \<Rightarrow> int" where
  "DayWithinYear t = Day t - DayFromYear (YearFromTime t)"

text \<open>The day of the year on which each month starts; \<open>l\<close> is 1 in a leap year.\<close>

definition month_starts :: "int \<Rightarrow> int list" where
  "month_starts l =
     [0, 31, 59 + l, 90 + l, 120 + l, 151 + l, 181 + l, 212 + l, 243 + l, 273 + l,
      304 + l, 334 + l]"

text \<open>\<^verbatim>\<open>MonthFromTime(t)\<close>: 0 for January up to 11 for December.\<close>

definition MonthFromTime :: "int \<Rightarrow> int" where
  "MonthFromTime t =
     int (length (filter (\<lambda>s. s \<le> DayWithinYear t) (month_starts (InLeapYear t)))) - 1"

definition DateFromTime :: "int \<Rightarrow> int" where
  "DateFromTime t =
     DayWithinYear t - month_starts (InLeapYear t) ! nat (MonthFromTime t) + 1"

definition HourFromTime :: "int \<Rightarrow> int" where
  "HourFromTime t = (t div msPerHour) mod 24"

text \<open>\<^verbatim>\<open>TimeClip\<close>: a time value beyond 8.64e15 ms from the epoch is \<^verbatim>\<open>NaN\<close>.\<close>

definition TimeClip :: "int \<Rightarrow> jsnum" where
  "TimeClip t = (if \<bar>t\<bar> \<le> 8640000000000000 then Some t else None)"

subsection \<open>The environment: time zone and date parser of the host\<close>

text \<open>
  Two things are the host's, not the program's: the local time zone, given as the
  offset \<^verbatim>\<open>LocalTZA(t, true)\<close> in milliseconds at the UTC time \<open>t\<close> (a function of
  \<open>t\<close>, so that daylight saving is covered), and what \<^verbatim>\<open>Date.parse\<close> makes of a
  string that is not one of the date-only forms \<^verbatim>\<open>YYYY\<close>, \<^verbatim>\<open>YYYY-MM\<close> and
  \<^verbatim>\<open>YYYY-MM-DD\<close> (ECMA-262 leaves strings outside its format to the implementation;
  the date-time forms are handed to the host here as well).
\<close>

record env =
  LocalTZA :: "int \<Rightarrow> int"
  host_parse :: "string \<Rightarrow> jsnum"

definition LocalTime :: "env \<Rightarrow> int \<Rightarrow> int" where
  "LocalTime e t = t + LocalTZA e t"

subsection \<open>Parsing: \<^verbatim>\<open>Date.parse\<close> and \<^verbatim>\<open>parseInt\<close>\<close>

definition digit_val :: "char \<Rightarrow> nat option" where
  "digit_val c =
     (let n = (of_char c :: nat)
      in if 48 \<le> n \<and> n \<le> 57 then Some (n - 48)
         else if 97 \<le> n \<and> n \<le> 122 then Some (n - 87)
         else if 65 \<le> n \<and> n \<le> 90 then Some (n - 55)
         else None)"

text \<open>The value of a string of decimal digits; \<open>None\<close> if a character is no digit.\<close>

fun dec_digits :: "nat \<Rightarrow> string \<Rightarrow> nat option" where
  "dec_digits acc [] = Some acc"
| "dec_digits acc (c # cs) =
     (case digit_val c of
        None \<Rightarrow> None
      | Some d \<Rightarrow> if d < 10 then dec_digits (10 * acc + d) cs else None)"

text \<open>\<^verbatim>\<open>MakeDay(year, month, date)\<close> for a month in 0..11 and a day of that month.\<close>

definition leap :: "int \<Rightarrow> int" where
  "leap y = DayFromYear (y + 1) - DayFromYear y - 365"

definition MakeDay :: "int \<Rightarrow> nat \<Rightarrow> int \<Rightarrow> int" where
  "MakeDay y m d = DayFromYear y + month_starts (leap y) ! m + d - 1"

definition DaysInMonth :: "int \<Rightarrow> nat \<Rightarrow> int" where
  "DaysInMonth y m =
     (if m = 11 then 31 else month_starts (leap y) ! (m + 1) - month_starts (leap y) ! m)"

text \<open>
  The date-only forms of the ECMA-262 date-time string format; each denotes midnight
  UTC. The month must be 01..12 and the day a day of that month.
\<close>

definition iso_date :: "string \<Rightarrow> int option" where
  "iso_date s =
     (case s of
        [y1, y2, y3, y4] \<Rightarrow>
          (case dec_digits 0 [y1, y2, y3, y4] of
             None \<Rightarrow> None
           | Some y \<Rightarrow> Some (MakeDay (int y) 0 1 * msPerDay))
      | [y1, y2, y3, y4, a, m1, m2] \<Rightarrow>
          (case (dec_digits 0 [y1, y2, y3, y4], dec_digits 0 [m1, m2]) of
             (Some y, Some m) \<Rightarrow>
               if a = CHR ''-'' \<and> 1 \<le> m \<and> m \<le> 12
               then Some (MakeDay (int y) (m - 1) 1 * msPerDay) else None
           | _ \<Rightarrow> None)
      | [y1, y2, y3, y4, a, m1, m2, b, d1, d2] \<Rightarrow>
          (case (dec_digits 0 [y1, y2, y3, y4], dec_digits 0 [m1, m2], dec_digits 0 [d1, d2]) of
             (Some y, Some m, Some d) \<Rightarrow>
               if a = CHR ''-'' \<and> b = CHR ''-'' \<and> 1 \<le> m \<and> m \<le> 12 \<and> 1 \<le> d
                  \<and> int d \<le> DaysInMonth (int y) (m - 1)
               then Some (MakeDay (int y) (m - 1) (int d) * msPerDay) else None
           | _ \<Rightarrow> None)
      | _ \<Rightarrow> None)"

definition Date_parse :: "env \<Rightarrow> string \<Rightarrow> jsnum" where
  "Date_parse e s =
     (case iso_date s of
        Some t \<Rightarrow> Some t
      | None \<Rightarrow> (case host_parse e s of None \<Rightarrow> None | Some t \<Rightarrow> TimeClip t))"

text \<open>
  \<^verbatim>\<open>new Date(v)\<close>, as its time value: \<^verbatim>\<open>undefined\<close> and \<^verbatim>\<open>NaN\<close> give an Invalid
  Date, a number is clipped, a string is parsed.
\<close>

fun new_Date :: "env \<Rightarrow> jsval \<Rightarrow> jsnum" where
  "new_Date e Undefined = None"
| "new_Date e (Str s) = Date_parse e s"
| "new_Date e (Number None) = None"
| "new_Date e (Number (Some n)) = TimeClip n"

text \<open>The getters read the local time; on an Invalid Date they return \<^verbatim>\<open>NaN\<close>.\<close>

definition getFullYear :: "env \<Rightarrow> jsnum \<Rightarrow> jsnum" where
  "getFullYear e d = map_option (\<lambda>t. YearFromTime (LocalTime e t)) d"

definition getMonth :: "env \<Rightarrow> jsnum \<Rightarrow> jsnum" where
  "getMonth e d = map_option (\<lambda>t. MonthFromTime (LocalTime e t)) d"

definition getDate :: "env \<Rightarrow> jsnum \<Rightarrow> jsnum" where
  "getDate e d = map_option (\<lambda>t. DateFromTime (LocalTime e t)) d"

definition getHours :: "env \<Rightarrow> jsnum \<Rightarrow> jsnum" where
  "getHours e d = map_option (\<lambda>t. HourFromTime (LocalTime e t)) d"

text \<open>
  \<^verbatim>\<open>parseInt(string, radix)\<close>: leading white space is skipped, then an optional sign,
  then (when the radix is absent or 16) an optional \<^verbatim>\<open>0x\<close>, which selects radix 16;
  the longest run of digits of the radix is read, and none at all gives \<^verbatim>\<open>NaN\<close>.
\<close>

definition is_space :: "char \<Rightarrow> bool" where
  "is_space c = ((of_char c :: nat) \<in> {9, 10, 11, 12, 13, 32, 160})"

fun radix_digits :: "nat \<Rightarrow> string \<Rightarrow> nat list" where
  "radix_digits r [] = []"
| "radix_digits r (c # cs) =
     (case digit_val c of
        None \<Rightarrow> []
      | Some d \<Rightarrow> if d < r then d # radix_digits r cs else [])"

definition digits_value :: "nat \<Rightarrow> nat list \<Rightarrow> nat" where
  "digits_value r ds = foldl (\<lambda>acc d. r * acc + d) 0 ds"

definition parse_magnitude :: "nat option \<Rightarrow> string \<Rightarrow> nat option" where
  "parse_magnitude radix s =
     (let hex = (radix = None \<or> radix = Some 16)
                \<and> (take 2 s = ''0x'' \<or> take 2 s = ''0X'');
          r = (if hex then 16 else case radix of None \<Rightarrow> 10 | Some r \<Rightarrow> r);
          ds = radix_digits r (if hex then drop 2 s else s)
      in if ds = [] then None else Some (digits_value r ds))"

definition parseInt_string :: "string \<Rightarrow> nat option \<Rightarrow> jsnum" where
  "parseInt_string s radix =
     (let t = dropWhile is_space s
      in case t of
           [] \<Rightarrow> None
         | c # cs \<Rightarrow>
             if c = CHR ''-'' then map_option (\<lambda>n. - int n) (parse_magnitude radix cs)
             else if c = CHR ''+'' then map_option int (parse_magnitude radix cs)
             else map_option int (parse_magnitude radix t))"

text \<open>
  \<^verbatim>\<open>parseInt\<close> converts its argument to a string first: \<^verbatim>\<open>undefined\<close> and \<^verbatim>\<open>NaN\<close>
  read as no number, and an integer (below 1e21 in magnitude, as every time value is)
  prints as its decimal digits, which read back as the integer.
\<close>

fun parseInt :: "jsval \<Rightarrow> nat option \<Rightarrow> jsnum" where
  "parseInt Undefined radix = None"
| "parseInt (Str s) radix = parseInt_string s radix"
| "parseInt (Number n) radix = n"

text \<open>
  A number substituted into a template literal: its decimal digits, with a sign when
  negative, and \<^verbatim>\<open>NaN\<close> for \<^verbatim>\<open>NaN\<close>. (Every number printed on a path that the
  theorems follow is a year, a month or a day, far below the 1e21 from which JavaScript
  prints an exponent.)
\<close>

fun show_nat :: "nat \<Rightarrow> string" where
  "show_nat n =
     (if n < 10 then [char_of (48 + n)]
      else show_nat (n div 10) @ [char_of (48 + n mod 10)])"

declare show_nat.simps [simp del]

fun template :: "jsnum \<Rightarrow> string" where
  "template None = ''NaN''"
| "template (Some n) = (if n < 0 then ''-'' @ show_nat (nat (- n)) else show_nat (nat n))"

text \<open>\<^verbatim>\<open>a - b\<close> and \<^verbatim>\<open>a + b\<close> on numbers: \<^verbatim>\<open>NaN\<close> is absorbing.\<close>

definition js_minus :: "jsnum \<Rightarrow> int \<Rightarrow> jsnum" where
  "js_minus a b = map_option (\<lambda>n. n - b) a"

definition js_plus :: "jsnum \<Rightarrow> int \<Rightarrow> jsnum" where
  "js_plus a b = map_option (\<lambda>n. n + b) a"

section \<open>Readings and the query engine\<close>

text \<open>
  A reading as \<^verbatim>\<open>fetchDataFromApi\<close> builds it. Temperature and humidity are the
  sensor's numbers; only their order matters below, so they are real numbers.
\<close>

record reading =
  temperature :: real
  humidity :: real
  timestamp :: int

text \<open>\<^verbatim>\<open>new Date(entry.timestamp)\<close>\<close>

definition entry_date :: "env \<Rightarrow> reading \<Rightarrow> jsnum" where
  "entry_date e entry = new_Date e (Number (Some (timestamp entry)))"

text \<open>
  \<^verbatim>\<open>filterData\<close> (server.js 155-183, part_000 135-163). The \<^verbatim>\<open>switch\<close> compares
  \<^verbatim>\<open>filterBy\<close> with each label by \<^verbatim>\<open>===\<close>.
\<close>

definition filterData :: "env \<Rightarrow> reading list \<Rightarrow> jsval \<Rightarrow> jsval \<Rightarrow> reading list" where
  "filterData e data filterBy filterValue =
     (if filterBy = Str ''day'' then
        (let filterDay = getDate e (new_Date e filterValue)
         in filter (\<lambda>entry. strict_eq (getDate e (entry_date e entry)) filterDay) data)
      else if filterBy = Str ''month'' then
        (let filterMonth = getMonth e (new_Date e filterValue)
         in filter (\<lambda>entry. strict_eq (getMonth e (entry_date e entry)) filterMonth) data)
      else if filterBy = Str ''hour'' then
        (let filterHour = parseInt filterValue None
         in filter (\<lambda>entry. strict_eq (getHours e (entry_date e entry)) filterHour) data)
      else if filterBy = Str ''timestamp'' then
        (let filterTimestamp = parseInt filterValue None
         in filter (\<lambda>entry. strict_eq (Some (timestamp entry)) filterTimestamp) data)
      else if filterBy = Str ''year'' then
        (let filterYear = getFullYear e (new_Date e filterValue)
         in filter (\<lambda>entry. strict_eq (getFullYear e (entry_date e entry)) filterYear) data)
      else data)"

text \<open>
  What \<^verbatim>\<open>highest\<close> and \<^verbatim>\<open>lowest\<close> can hold: \<^verbatim>\<open>null\<close>, a temperature, or the
  infinities that \<^verbatim>\<open>Math.max()\<close> and \<^verbatim>\<open>Math.min()\<close> return for no argument.
\<close>

datatype extremum = Null | Value real | NegInfinity | PosInfinity

definition Math_max :: "real list \<Rightarrow> extremum" where
  "Math_max xs = (case xs of [] \<Rightarrow> NegInfinity | x # ys \<Rightarrow> Value (fold max ys x))"

definition Math_min :: "real list \<Rightarrow> extremum" where
  "Math_min xs = (case xs of [] \<Rightarrow> PosInfinity | x # ys \<Rightarrow> Value (fold min ys x))"

record minmax =
  highest :: extremum
  lowest :: extremum

text \<open>\<^verbatim>\<open>findMinMaxTemperature\<close> (part_000 166-178).\<close>

definition findMinMaxTemperature :: "env \<Rightarrow> reading list \<Rightarrow> jsval \<Rightarrow> jsval \<Rightarrow> minmax" where
  "findMinMaxTemperature e data filterBy filterValue =
     (let filteredData = filterData e data filterBy filterValue
      in if length filteredData = 0 then \<lparr>highest = Null, lowest = Null\<rparr>
         else (let temperatures = map temperature filteredData
               in \<lparr>highest = Math_max temperatures, lowest = Math_min temperatures\<rparr>))"

section \<open>The partition store\<close>

text \<open>
  The text of a partition file, up to what \<^verbatim>\<open>JSON.parse\<close> makes of it: the JSON
  text of an array of readings, as \<^verbatim>\<open>JSON.stringify\<close> writes it, or text that
  \<^verbatim>\<open>JSON.parse\<close> rejects. (The characters of the JSON text are the library's
  business and are not modelled: \<^verbatim>\<open>JSON.parse\<close> gives back what \<^verbatim>\<open>JSON.stringify\<close>
  was given, as it does for arrays of objects with finite numbers as fields. Text that
  parses to anything but an array of readings is outside the model.)
\<close>

datatype contents = Json_text "reading list" | Garbled

datatype error = ENOENT | EROFS | SyntaxError | NetworkError

definition JSON_stringify :: "reading list \<Rightarrow> contents" where
  "JSON_stringify data = Json_text data"

fun JSON_parse :: "contents \<Rightarrow> error + reading list" where
  "JSON_parse (Json_text data) = Inr data"
| "JSON_parse Garbled = Inl SyntaxError"

text \<open>
  The world the server runs in: the directories beside the server's own, each with its
  files; whether the file system refuses writes (the unexpected I/O failure of a
  \<^verbatim>\<open>mkdirSync\<close> or \<^verbatim>\<open>writeFileSync\<close>); and the console.
\<close>

datatype line = Log string | Error string error

record world =
  tree :: "string \<rightharpoonup> (string \<rightharpoonup> contents)"
  read_only :: bool
  console :: "line list"

type_synonym path = "string \<times> string"

definition console_log :: "string \<Rightarrow> world \<Rightarrow> world" where
  "console_log msg w = w\<lparr>console := console w @ [Log msg]\<rparr>"

definition console_error :: "string \<Rightarrow> error \<Rightarrow> world \<Rightarrow> world" where
  "console_error msg err w = w\<lparr>console := console w @ [Error msg err]\<rparr>"

definition existsSync :: "string \<Rightarrow> world \<Rightarrow> bool" where
  "existsSync dir w = (tree w dir \<noteq> None)"

definition mkdirSync :: "string \<Rightarrow> world \<Rightarrow> error + world" where
  "mkdirSync dir w =
     (if read_only w then Inl EROFS else Inr (w\<lparr>tree := (tree w)(dir \<mapsto> Map.empty)\<rparr>))"

definition readFileSync :: "path \<Rightarrow> world \<Rightarrow> error + contents" where
  "readFileSync p w =
     (case tree w (fst p) of
        None \<Rightarrow> Inl ENOENT
      | Some files \<Rightarrow> (case files (snd p) of None \<Rightarrow> Inl ENOENT | Some t \<Rightarrow> Inr t))"

definition writeFileSync :: "path \<Rightarrow> contents \<Rightarrow> world \<Rightarrow> error + world" where
  "writeFileSync p t w =
     (if read_only w then Inl EROFS
      else case tree w (fst p) of
             None \<Rightarrow> Inl ENOENT
           | Some files \<Rightarrow> Inr (w\<lparr>tree := (tree w)(fst p \<mapsto> files(snd p \<mapsto> t))\<rparr>))"

text \<open>
  A call of the store's functions, and of a handler, is taken at one instant \<open>now\<close>
  (milliseconds since the epoch): the clock reads inside one such call all return
  \<open>now\<close>. (\<^verbatim>\<open>fetchDataFromApi\<close> below calls the store twice and reads the clock
  itself as well; it takes each of these readings separately.)
\<close>

definition getCurrentYear :: "env \<Rightarrow> int \<Rightarrow> int" where
  "getCurrentYear e now = YearFromTime (LocalTime e now)"

definition month_names :: "string list" where
  "month_names =
     [''January'', ''February'', ''March'', ''April'', ''May'', ''June'', ''July'',
      ''August'', ''September'', ''October'', ''November'', ''December'']"

definition getCurrentMonth :: "env \<Rightarrow> int \<Rightarrow> string" where
  "getCurrentMonth e now = month_names ! nat (MonthFromTime (LocalTime e now))"

text \<open>The path of the current partition: the year's directory and the month's file.\<close>

definition partition_path :: "env \<Rightarrow> int \<Rightarrow> path" where
  "partition_path e now =
     (''data_'' @ template (Some (getCurrentYear e now)),
      ''weather_data_'' @ getCurrentMonth e now @ ''.json'')"

text \<open>\<^verbatim>\<open>getDataFilePath\<close> (server.js 27-35): creates the year's directory if absent.\<close>

definition getDataFilePath :: "env \<Rightarrow> int \<Rightarrow> world \<Rightarrow> (error + path) \<times> world" where
  "getDataFilePath e now w =
     (let yearDir = fst (partition_path e now)
      in if \<not> existsSync yearDir w then
           (case mkdirSync yearDir w of
              Inl err \<Rightarrow> (Inl err, w)
            | Inr w' \<Rightarrow> (Inr (partition_path e now), w'))
         else (Inr (partition_path e now), w))"

text \<open>\<^verbatim>\<open>writeWeatherData\<close> (server.js 56-59).\<close>

definition writeWeatherData :: "env \<Rightarrow> int \<Rightarrow> reading list \<Rightarrow> world \<Rightarrow> (error + unit) \<times> world" where
  "writeWeatherData e now data w =
     (case getDataFilePath e now w of
        (Inl err, w1) \<Rightarrow> (Inl err, w1)
      | (Inr filePath, w1) \<Rightarrow>
          (case writeFileSync filePath (JSON_stringify data) w1 of
             Inl err \<Rightarrow> (Inl err, w1)
           | Inr w2 \<Rightarrow> (Inr (), w2)))"

text \<open>
  \<^verbatim>\<open>readWeatherData\<close> (server.js 38-53). The \<^verbatim>\<open>try\<close> block covers the read and the
  parse, not \<^verbatim>\<open>getDataFilePath\<close>, and not the write in the \<^verbatim>\<open>catch\<close> block. (The
  older variant logs a longer line in the last branch, naming month and year, and is the
  same otherwise.)
\<close>

definition try_read :: "path \<Rightarrow> world \<Rightarrow> error + reading list" where
  "try_read filePath w =
     (case readFileSync filePath w of Inl err \<Rightarrow> Inl err | Inr data \<Rightarrow> JSON_parse data)"

definition readWeatherData :: "env \<Rightarrow> int \<Rightarrow> world \<Rightarrow> (error + reading list) \<times> world" where
  "readWeatherData e now w =
     (case getDataFilePath e now w of
        (Inl err, w1) \<Rightarrow> (Inl err, w1)
      | (Inr filePath, w1) \<Rightarrow>
          (case try_read filePath w1 of
             Inr data \<Rightarrow> (Inr data, w1)
           | Inl err \<Rightarrow>
               if err = ENOENT then
                 (let w2 = console_log (''Creating new file for '' @ getCurrentMonth e now
                                        @ '' in '' @ template (Some (getCurrentYear e now))) w1
                  in case writeWeatherData e now [] w2 of
                       (Inl err', w3) \<Rightarrow> (Inl err', w3)
                     | (Inr u, w3) \<Rightarrow> (Inr [], w3))
               else (Inr [], console_error ''Error reading weather data:'' err w1)))"

section \<open>The ingestion engine\<close>

text \<open>
  What \<^verbatim>\<open>axios.get(apiUrl)\<close> comes back with: a rejection (the sensor is unreachable
  or answers with an error status), or a body with the two numbers.
\<close>

datatype api = Api_failure | Api_data real real

text \<open>
  The clock, as one invocation of \<^verbatim>\<open>fetchDataFromApi\<close> reads it, in the order of the
  source: \<^verbatim>\<open>Date.now()\<close> for the timestamp (server.js 69), the clock while
  \<^verbatim>\<open>readWeatherData()\<close> resolves its path (71), \<^verbatim>\<open>new Date()\<close> for the hour that is
  tested (74), and the clock while \<^verbatim>\<open>writeWeatherData\<close> resolves its path (81).
\<close>

record clock =
  at_stamp :: int
  at_read :: int
  at_test :: int
  at_write :: int

text \<open>\<^verbatim>\<open>new Date().getHours()\<close> at the instant \<open>now\<close>.\<close>

definition currentHour :: "env \<Rightarrow> int \<Rightarrow> jsnum" where
  "currentHour e now = getHours e (Some now)"

text \<open>\<^verbatim>\<open>existingData.some(entry => new Date(entry.timestamp).getHours() === currentHour)\<close>\<close>

definition hasCurrentHourData :: "env \<Rightarrow> int \<Rightarrow> reading list \<Rightarrow> bool" where
  "hasCurrentHourData e now existingData =
     list_ex (\<lambda>entry. strict_eq (getHours e (entry_date e entry)) (currentHour e now))
       existingData"

text \<open>
  \<^verbatim>\<open>fetchDataFromApi\<close> (server.js 62-89). Everything it does is inside one \<^verbatim>\<open>try\<close>:
  whatever is thrown is logged, and the function returns normally. The new reading is
  stamped with \<^verbatim>\<open>Date.now()\<close>; the hour that is looked for among the stored readings
  is that of a later \<^verbatim>\<open>new Date()\<close>.
\<close>

definition newWeatherData :: "int \<Rightarrow> real \<Rightarrow> real \<Rightarrow> reading" where
  "newWeatherData now t h = \<lparr>temperature = t, humidity = h, timestamp = now\<rparr>"

definition fetchDataFromApi :: "env \<Rightarrow> clock \<Rightarrow> api \<Rightarrow> world \<Rightarrow> world" where
  "fetchDataFromApi e c response w =
     (case response of
        Api_failure \<Rightarrow> console_error ''Error fetching data from API:'' NetworkError w
      | Api_data t h \<Rightarrow>
          (case readWeatherData e (at_read c) w of
             (Inl err, w1) \<Rightarrow> console_error ''Error fetching data from API:'' err w1
           | (Inr existingData, w1) \<Rightarrow>
               if \<not> hasCurrentHourData e (at_test c) existingData then
                 (case writeWeatherData e (at_write c)
                         (existingData @ [newWeatherData (at_stamp c) t h]) w1 of
                    (Inl err, w2) \<Rightarrow> console_error ''Error fetching data from API:'' err w2
                  | (Inr u, w2) \<Rightarrow> console_log ''Data fetched and saved successfully.'' w2)
               else console_log ''Data for the current hour already exists.'' w1))"

text \<open>
  The scheduler: one invocation at process start and one per cron tick, each with its
  readings of the clock and with what the sensor answers then.
\<close>

fun schedule :: "env \<Rightarrow> (clock \<times> api) list \<Rightarrow> world \<Rightarrow> world" where
  "schedule e [] w = w"
| "schedule e ((c, response) # ticks) w = schedule e ticks (fetchDataFromApi e c response w)"

section \<open>The HTTP handlers\<close>

datatype body =
    Readings "reading list"
  | MinMax extremum extremum
  | MinMaxDay extremum extremum string
  | Message string
  | Failure string

record response =
  status :: nat
  body :: body

text \<open>\<^verbatim>\<open>GET /weather\<close> (server.js 100-111).\<close>

definition get_weather :: "env \<Rightarrow> int \<Rightarrow> jsval \<Rightarrow> jsval \<Rightarrow> world \<Rightarrow> response \<times> world" where
  "get_weather e now filterBy filterValue w =
     (case readWeatherData e now w of
        (Inl err, w1) \<Rightarrow>
          (\<lparr>status = 500, body = Failure ''Internal Server Error''\<rparr>,
           console_error ''Error retrieving data:'' err w1)
      | (Inr weatherData, w1) \<Rightarrow>
          (let filteredData =
                 (if truthy filterBy then filterData e weatherData filterBy filterValue
                  else weatherData)
           in (\<lparr>status = 200, body = Readings filteredData\<rparr>, w1)))"

text \<open>
  \<^verbatim>\<open>GET /tempdata\<close> (server.js 114-152). Its local constants, each as a function of
  the query parameters \<^verbatim>\<open>date\<close>, \<^verbatim>\<open>month\<close> and \<^verbatim>\<open>year\<close>:
\<close>

definition filterDate :: "env \<Rightarrow> int \<Rightarrow> jsval \<Rightarrow> jsnum" where
  "filterDate e now date = (if truthy date then new_Date e date else Some now)"

definition filterMonth :: "env \<Rightarrow> int \<Rightarrow> jsval \<Rightarrow> jsval \<Rightarrow> jsnum" where
  "filterMonth e now date month =
     (if truthy month then js_minus (parseInt month (Some 10)) 1
      else getMonth e (filterDate e now date))"

definition filterYear :: "env \<Rightarrow> int \<Rightarrow> jsval \<Rightarrow> jsval \<Rightarrow> jsnum" where
  "filterYear e now date year =
     (if truthy year then parseInt year (Some 10) else getFullYear e (filterDate e now date))"

definition filterDay :: "env \<Rightarrow> int \<Rightarrow> jsval \<Rightarrow> jsnum" where
  "filterDay e now date = getDate e (filterDate e now date)"

text \<open>The conjunctive filter on year, month and day.\<close>

definition filteredData :: "env \<Rightarrow> jsnum \<Rightarrow> jsnum \<Rightarrow> jsnum \<Rightarrow> reading list \<Rightarrow> reading list" where
  "filteredData e fYear fMonth fDay weatherData =
     filter (\<lambda>entry.
        (let entryDate = entry_date e entry
         in strict_eq (getFullYear e entryDate) fYear
            \<and> strict_eq (getMonth e entryDate) fMonth
            \<and> strict_eq (getDate e entryDate) fDay)) weatherData"

definition get_tempdata ::
  "env \<Rightarrow> int \<Rightarrow> jsval \<Rightarrow> jsval \<Rightarrow> jsval \<Rightarrow> world \<Rightarrow> response \<times> world" where
  "get_tempdata e now date month year w =
     (case readWeatherData e now w of
        (Inl err, w1) \<Rightarrow>
          (\<lparr>status = 500, body = Failure ''Internal Server Error''\<rparr>,
           console_error ''Error retrieving temperature data:'' err w1)
      | (Inr weatherData, w1) \<Rightarrow>
          (let fMonth = filterMonth e now date month;
               fYear = filterYear e now date year;
               fDay = filterDay e now date;
               selected = filteredData e fYear fMonth fDay weatherData
           in if length selected = 0 then
                (\<lparr>status = 404, body = Message ''No data available for the specified day.''\<rparr>, w1)
              else
                (let temperatures = map temperature selected;
                     highest = Math_max temperatures;
                     lowest = Math_min temperatures
                 in (\<lparr>status = 200,
                      body = MinMaxDay highest lowest
                               (template fYear @ ''-'' @ template (js_plus fMonth 1) @ ''-''
                                @ template fDay)\<rparr>, w1))))"

text \<open>
  \<^verbatim>\<open>GET /tempdata\<close> of the older variant (part_000 114-132): one criterion, the
  aggregate taken by \<^verbatim>\<open>findMinMaxTemperature\<close>, and no 404.
\<close>

definition get_tempdata_old :: "env \<Rightarrow> int \<Rightarrow> jsval \<Rightarrow> jsval \<Rightarrow> world \<Rightarrow> response \<times> world" where
  "get_tempdata_old e now filterBy0 filterValue w =
     (case readWeatherData e now w of
        (Inl err, w1) \<Rightarrow>
          (\<lparr>status = 500, body = Failure ''Internal Server Error''\<rparr>,
           console_error ''Error retrieving temperature data:'' err w1)
      | (Inr weatherData, w1) \<Rightarrow>
          (let filterBy = (if truthy filterBy0 then filterBy0 else Str ''day'')
           in if filterBy = Str ''day'' then
                (let fDay = getDate e (new_Date e filterValue);
                     r = findMinMaxTemperature e weatherData filterBy (Number fDay)
                 in (\<lparr>status = 200, body = MinMax (highest r) (lowest r)\<rparr>, w1))
              else
                (let r = findMinMaxTemperature e weatherData filterBy filterValue
                 in (\<lparr>status = 200, body = MinMax (highest r) (lowest r)\<rparr>, w1))))"

section \<open>Vocabulary of the properties\<close>

text \<open>
  The sequence a partition holds: what \<^verbatim>\<open>JSON.parse\<close> makes of the current
  partition's file, and nothing when the file is absent or garbled.
\<close>

definition stored :: "env \<Rightarrow> int \<Rightarrow> world \<Rightarrow> reading list" where
  "stored e now w =
     (case try_read (partition_path e now) w of Inr data \<Rightarrow> data | Inl err \<Rightarrow> [])"

text \<open>A reading whose timestamp is a valid time value that reads \<open>l\<close> on the local clock.\<close>

definition stamped_at :: "env \<Rightarrow> reading \<Rightarrow> int \<Rightarrow> bool" where
  "stamped_at e r l =
     (TimeClip (timestamp r) = Some (timestamp r) \<and> LocalTime e (timestamp r) = l)"

text \<open>At the UTC time \<open>t\<close> the local clock is ahead of UTC by less than a day.\<close>

definition east_of_UTC :: "env \<Rightarrow> int \<Rightarrow> bool" where
  "east_of_UTC e t = (0 \<le> LocalTZA e t \<and> LocalTZA e t < msPerDay)"

text \<open>
  Example hosts and worlds: a zone with a fixed offset whose parser knows the date-only
  forms alone, a reading, the empty file system, and one that holds a single file.
\<close>

definition fixed_zone :: "int \<Rightarrow> env" where
  "fixed_zone off = \<lparr>LocalTZA = (\<lambda>t. off), host_parse = (\<lambda>s. None)\<rparr>"

definition sample :: "real \<Rightarrow> int \<Rightarrow> reading" where
  "sample c t = \<lparr>temperature = c, humidity = 50, timestamp = t\<rparr>"

definition fresh :: world where
  "fresh = \<lparr>tree = Map.empty, read_only = False, console = []\<rparr>"

definition holding :: "path \<Rightarrow> contents \<Rightarrow> world" where
  "holding p t = \<lparr>tree = [fst p \<mapsto> [snd p \<mapsto> t]], read_only = False, console = []\<rparr>"

text \<open>How many readings of a sequence fall in the hour \<open>h\<close> of the day.\<close>

definition hour_count :: "env \<Rightarrow> jsnum \<Rightarrow> reading list \<Rightarrow> nat" where
  "hour_count e h data =
     length (filter (\<lambda>entry. strict_eq (getHours e (entry_date e entry)) h) data)"

text \<open>
  The invariant of a partition: every timestamp is a valid time value, and no two
  readings share an hour of the day. A world has it when every file that holds an array
  of readings has it.
\<close>

definition hourly :: "env \<Rightarrow> reading list \<Rightarrow> bool" where
  "hourly e data =
     (list_all (\<lambda>entry. TimeClip (timestamp entry) = Some (timestamp entry)) data
      \<and> distinct (map (\<lambda>entry. getHours e (entry_date e entry)) data))"

definition hourly_world :: "env \<Rightarrow> world \<Rightarrow> bool" where
  "hourly_world e w = (\<forall>p d. readFileSync p w = Inr (Json_text d) \<longrightarrow> hourly e d)"

text \<open>
  An invocation whose timestamp is a valid time value (as every reading of the clock
  is) and falls in the hour of the day that is tested: one that does not straddle the
  turn of an hour between \<^verbatim>\<open>Date.now()\<close> and \<^verbatim>\<open>new Date()\<close>. Ticks are steady when
  each of them is.
\<close>

definition steady :: "env \<Rightarrow> clock \<Rightarrow> bool" where
  "steady e c =
     (TimeClip (at_stamp c) = Some (at_stamp c)
      \<and> currentHour e (at_stamp c) = currentHour e (at_test c))"

definition steady_ticks :: "env \<Rightarrow> (clock \<times> api) list \<Rightarrow> bool" where
  "steady_ticks e ticks = list_all (\<lambda>(c, response). steady e c) ticks"

text \<open>Ticks whose reads all resolve to the partition at \<open>p\<close>.\<close>

definition reading_from :: "env \<Rightarrow> path \<Rightarrow> (clock \<times> api) list \<Rightarrow> bool" where
  "reading_from e p ticks = list_all (\<lambda>(c, response). partition_path e (at_read c) = p) ticks"

text \<open>The clock of an invocation that takes no time at all.\<close>

definition instant :: "int \<Rightarrow> clock" where
  "instant now = \<lparr>at_stamp = now, at_read = now, at_test = now, at_write = now\<rparr>"

text \<open>
  Example clocks, all on 2024-01-05 (UTC): two invocations in the hour from 03:00, a
  millisecond between their readings of the clock; one at 05:00; and one that stamps
  its reading at 03:59:59.999 and reads the clock again at 04:00:00.000.
\<close>

definition first_call :: clock where
  "first_call = \<lparr>at_stamp = 1704423600000, at_read = 1704423600001,
                  at_test = 1704423600002, at_write = 1704423600003\<rparr>"

definition second_call :: clock where
  "second_call = \<lparr>at_stamp = 1704424800000, at_read = 1704424800001,
                   at_test = 1704424800002, at_write = 1704424800003\<rparr>"

definition third_call :: clock where
  "third_call = instant 1704430800000"

definition straddling_call :: clock where
  "straddling_call = \<lparr>at_stamp = 1704427199999, at_read = 1704427200000,
                       at_test = 1704427200000, at_write = 1704427200000\<rparr>"

text \<open>
  Example data: a reading for each hour of 2024-01-05 (UTC), and four readings of which
  the first three fall on 2024-01-05 and the last on the day after.
\<close>

definition full_day :: "reading list" where
  "full_day = map (\<lambda>h. sample 20 (1704412800000 + h * 3600000)) [0..23]"

definition january_5 :: "reading list" where
  "january_5 = [sample 10 1704423600000, sample 22 1704463200000, sample 15 1704484800000,
                sample 30 1704510000000]"

section \<open>Calendar fields\<close>

text \<open>
  \<^verbatim>\<open>YearFromTime\<close> is the year ECMA-262 specifies: the one whose first day is the last
  not after the day of \<open>t\<close>. So the day within the year is not negative, and the month
  is one of the twelve.
\<close>

lemma div_lower: "(0::int) < b \<Longrightarrow> b * (a div b) \<le> a"
  by (metis mult.commute pos_mod_sign add.commute add_0 add_le_cancel_right div_mult_mod_eq)

lemma div_upper: "(0::int) < b \<Longrightarrow> a < b * (a div b) + b"
  by (metis mult.commute pos_mod_bound add_less_cancel_left div_mult_mod_eq)

lemma DayFromYear_below:
  assumes "146097 * k \<le> 400 * d"
  shows "DayFromYear (1970 + k - 1) \<le> d"
proof -
  define a where "a = (k - 1 + 1) div 4"
  define b where "b = (k - 1 + 69) div 100"
  define c where "c = (k - 1 + 369) div 400"
  have a: "4 * a \<le> k - 1 + 1"
    unfolding a_def by (rule div_lower) simp
  have b: "k - 1 + 69 < 100 * b + 100"
    unfolding b_def by (rule div_upper) simp
  have c: "400 * c \<le> k - 1 + 369"
    unfolding c_def by (rule div_lower) simp
  have "DayFromYear (1970 + k - 1) = 365 * (k - 1) + a - b + c"
    by (simp add: DayFromYear_def a_def b_def c_def algebra_simps)
  moreover have "365 * (k - 1) + a - b + c \<le> d"
  proof -
    have "400 * a \<le> 100 * k"
      using a by simp
    moreover have "4 * k - 128 < 400 * b"
      using b by simp
    ultimately have "400 * (365 * (k - 1) + a - b + c) \<le> 146097 * k"
      using c by simp
    with assms have "400 * (365 * (k - 1) + a - b + c) \<le> 400 * d"
      by simp
    then show ?thesis
      by simp
  qed
  ultimately show ?thesis
    by simp
qed

lemma DayFromYear_above:
  assumes "400 * d < 146097 * k + 146097"
  shows "d < DayFromYear (1970 + k + 2)"
proof -
  define a where "a = (k + 2 + 1) div 4"
  define b where "b = (k + 2 + 69) div 100"
  define c where "c = (k + 2 + 369) div 400"
  have a: "k + 2 + 1 < 4 * a + 4"
    unfolding a_def by (rule div_upper) simp
  have b: "100 * b \<le> k + 2 + 69"
    unfolding b_def by (rule div_lower) simp
  have c: "k + 2 + 369 < 400 * c + 400"
    unfolding c_def by (rule div_upper) simp
  have "DayFromYear (1970 + k + 2) = 365 * (k + 2) + a - b + c"
    by (simp add: DayFromYear_def a_def b_def c_def algebra_simps)
  moreover have "d < 365 * (k + 2) + a - b + c"
  proof -
    have "100 * k - 100 < 400 * a"
      using a by simp
    moreover have "400 * b \<le> 4 * k + 284"
      using b by simp
    ultimately have "146097 * k + 146097 \<le> 400 * (365 * (k + 2) + a - b + c)"
      using c by simp
    with assms have "400 * d < 400 * (365 * (k + 2) + a - b + c)"
      by simp
    then show ?thesis
      by simp
  qed
  ultimately show ?thesis
    by simp
qed

lemma YearFromTime_spec:
  "DayFromYear (YearFromTime t) \<le> Day t \<and> Day t < DayFromYear (YearFromTime t + 1)"
proof -
  define k where "k = (400 * Day t) div 146097"
  have lo: "146097 * k \<le> 400 * Day t"
    unfolding k_def by (rule div_lower) simp
  have hi: "400 * Day t < 146097 * k + 146097"
    unfolding k_def by (rule div_upper) simp
  from DayFromYear_below [OF lo] DayFromYear_above [OF hi] show ?thesis
    by (simp add: YearFromTime_def Let_def k_def [symmetric] add.commute add.left_commute)
qed


lemma DayWithinYear_range: "0 \<le> DayWithinYear t \<and> DayWithinYear t < 365 + InLeapYear t"
  using YearFromTime_spec [of t] by (simp add: DayWithinYear_def InLeapYear_def Let_def)

lemma MonthFromTime_range: "0 \<le> MonthFromTime t \<and> MonthFromTime t \<le> 11"
proof -
  have "length (filter (\<lambda>s. s \<le> DayWithinYear t) (month_starts (InLeapYear t))) \<le> 12"
    using length_filter_le [of "\<lambda>s. s \<le> DayWithinYear t" "month_starts (InLeapYear t)"]
    by (simp add: month_starts_def)
  moreover have "1 \<le> length (filter (\<lambda>s. s \<le> DayWithinYear t) (month_starts (InLeapYear t)))"
    using DayWithinYear_range [of t] by (simp add: month_starts_def)
  ultimately show ?thesis
    unfolding MonthFromTime_def by linarith
qed

text \<open>The calendar fields of a time value depend on its day number alone.\<close>

lemma YearFromTime_cong: "Day t = Day t' \<Longrightarrow> YearFromTime t = YearFromTime t'"
  by (simp add: YearFromTime_def)

lemma InLeapYear_cong: "Day t = Day t' \<Longrightarrow> InLeapYear t = InLeapYear t'"
  by (simp add: InLeapYear_def YearFromTime_cong [of t t'])

lemma DayWithinYear_cong: "Day t = Day t' \<Longrightarrow> DayWithinYear t = DayWithinYear t'"
  by (simp add: DayWithinYear_def YearFromTime_cong [of t t'])

lemma MonthFromTime_cong: "Day t = Day t' \<Longrightarrow> MonthFromTime t = MonthFromTime t'"
  by (simp add: MonthFromTime_def DayWithinYear_cong [of t t'] InLeapYear_cong [of t t'])

lemma DateFromTime_cong: "Day t = Day t' \<Longrightarrow> DateFromTime t = DateFromTime t'"
  by (simp add: DateFromTime_def DayWithinYear_cong [of t t'] InLeapYear_cong [of t t']
      MonthFromTime_cong [of t t'])

lemma east_Day:
  "east_of_UTC e (d * msPerDay) \<Longrightarrow> Day (LocalTime e (d * msPerDay)) = Day (d * msPerDay)"
  by (simp add: east_of_UTC_def LocalTime_def Day_def msPerDay_def)

lemma stamped_getters:
  assumes "stamped_at e r l"
  shows "getFullYear e (entry_date e r) = Some (YearFromTime l)"
    and "getMonth e (entry_date e r) = Some (MonthFromTime l)"
    and "getDate e (entry_date e r) = Some (DateFromTime l)"
    and "getHours e (entry_date e r) = Some (HourFromTime l)"
  using assms
  by (simp_all add: stamped_at_def entry_date_def getFullYear_def getMonth_def getDate_def
      getHours_def)

lemma stamped_at_sample:
  "\<bar>l - off\<bar> \<le> 8640000000000000 \<Longrightarrow> stamped_at (fixed_zone off) (sample c (l - off)) l"
  by (simp add: stamped_at_def fixed_zone_def sample_def TimeClip_def LocalTime_def)

text \<open>The three local times of the example, and the two filter values, evaluated.\<close>

lemma fields_5_Jan_3h:
  "YearFromTime 1704423600000 = 2024" "MonthFromTime 1704423600000 = 0"
  "DateFromTime 1704423600000 = 5" "HourFromTime 1704423600000 = 3"
  by code_simp+

lemma fields_5_Jan_14h:
  "YearFromTime 1704463200000 = 2024" "MonthFromTime 1704463200000 = 0"
  "DateFromTime 1704463200000 = 5" "HourFromTime 1704463200000 = 14"
  by code_simp+

lemma fields_5_Feb_3h:
  "YearFromTime 1707102000000 = 2024" "MonthFromTime 1707102000000 = 1"
  "DateFromTime 1707102000000 = 5" "HourFromTime 1707102000000 = 3"
  by code_simp+

lemma fields_midnight:
  "DateFromTime 1704412800000 = 5" "YearFromTime 1704067200000 = 2024"
  "DateFromTime 1704394800000 = 4" "YearFromTime 1704049200000 = 2023"
  by code_simp+

lemma iso_date_2024_01_05: "iso_date ''2024-01-05'' = Some 1704412800000"
  by code_simp

lemma iso_date_2024: "iso_date ''2024'' = Some 1704067200000"
  by code_simp

lemma parseInt_3: "parseInt_string ''3'' None = Some 3"
  by code_simp

lemma day_value:
  assumes "east_of_UTC e 1704412800000"
  shows "getDate e (Date_parse e ''2024-01-05'') = Some 5"
proof -
  have "east_of_UTC e (19727 * msPerDay)"
    using assms by (simp add: msPerDay_def)
  from east_Day [OF this] have "Day (LocalTime e 1704412800000) = Day 1704412800000"
    by (simp add: msPerDay_def)
  from DateFromTime_cong [OF this] show ?thesis
    by (simp add: Date_parse_def iso_date_2024_01_05 getDate_def fields_midnight)
qed

lemma year_value:
  assumes "east_of_UTC e 1704067200000"
  shows "getFullYear e (Date_parse e ''2024'') = Some 2024"
proof -
  have "east_of_UTC e (19723 * msPerDay)"
    using assms by (simp add: msPerDay_def)
  from east_Day [OF this] have "Day (LocalTime e 1704067200000) = Day 1704067200000"
    by (simp add: msPerDay_def)
  from YearFromTime_cong [OF this] show ?thesis
    by (simp add: Date_parse_def iso_date_2024 getFullYear_def fields_midnight)
qed

section \<open>The filter on the example of the spec\<close>

lemma filter_day_5th:
  assumes "stamped_at e r1 1704423600000" and "stamped_at e r2 1704463200000"
      and "stamped_at e r3 1707102000000" and "east_of_UTC e 1704412800000"
  shows "filterData e [r1, r2, r3] (Str ''day'') (Str ''2024-01-05'') = [r1, r2, r3]"
  by (simp add: filterData_def day_value [OF assms(4)] stamped_getters [OF assms(1)]
      stamped_getters [OF assms(2)] stamped_getters [OF assms(3)]
      fields_5_Jan_3h fields_5_Jan_14h fields_5_Feb_3h)

lemma filter_hour_3:
  assumes "stamped_at e r1 1704423600000" and "stamped_at e r2 1704463200000"
      and "stamped_at e r3 1707102000000"
  shows "filterData e [r1, r2, r3] (Str ''hour'') (Str ''3'') = [r1, r3]"
  by (simp add: filterData_def parseInt_3 stamped_getters [OF assms(1)]
      stamped_getters [OF assms(2)] stamped_getters [OF assms(3)]
      fields_5_Jan_3h fields_5_Jan_14h fields_5_Feb_3h)

lemma filter_year_2024:
  assumes "stamped_at e r1 1704423600000" and "stamped_at e r2 1704463200000"
      and "stamped_at e r3 1707102000000" and "east_of_UTC e 1704067200000"
  shows "filterData e [r1, r2, r3] (Str ''year'') (Str ''2024'') = [r1, r2, r3]"
  by (simp add: filterData_def year_value [OF assms(4)] stamped_getters [OF assms(1)]
      stamped_getters [OF assms(2)] stamped_getters [OF assms(3)]
      fields_5_Jan_3h fields_5_Jan_14h fields_5_Feb_3h)

text \<open>
  C1, as the code has it. Three readings stamped 2024-01-05T03:00, 2024-01-05T14:00 and
  2024-02-05T03:00 on the local clock. The criterion \<^verbatim>\<open>day\<close> compares the day of the
  month alone, and the third reading falls on a 5th as well: the value \<^verbatim>\<open>2024-01-05\<close>
  keeps all three readings. The value is parsed as midnight UTC and read on the local
  clock, so this needs a host that is at or east of UTC at that instant; the same holds
  for \<^verbatim>\<open>year\<close> with the value \<^verbatim>\<open>2024\<close>, which keeps all three. The criterion
  \<^verbatim>\<open>hour\<close> with the value \<^verbatim>\<open>3\<close> keeps readings 1 and 3 on every host.
\<close>

theorem filterData_example:
  assumes "stamped_at e r1 1704423600000"
      and "stamped_at e r2 1704463200000"
      and "stamped_at e r3 1707102000000"
      and "east_of_UTC e 1704412800000"
      and "east_of_UTC e 1704067200000"
  shows "filterData e [r1, r2, r3] (Str ''day'') (Str ''2024-01-05'') = [r1, r2, r3]
       \<and> filterData e [r1, r2, r3] (Str ''hour'') (Str ''3'') = [r1, r3]
       \<and> filterData e [r1, r2, r3] (Str ''year'') (Str ''2024'') = [r1, r2, r3]"
  using filter_day_5th [OF assms(1-4)] filter_hour_3 [OF assms(1-3)]
    filter_year_2024 [OF assms(1-3) assms(5)]
  by simp

text \<open>The example on a host in India (UTC+5:30, the zone the cron schedule names).\<close>

theorem filterData_example_witness:
  "filterData (fixed_zone 19800000)
     [sample 20 (1704423600000 - 19800000), sample 21 (1704463200000 - 19800000),
      sample 22 (1707102000000 - 19800000)]
     (Str ''day'') (Str ''2024-01-05'')
   = [sample 20 (1704423600000 - 19800000), sample 21 (1704463200000 - 19800000),
      sample 22 (1707102000000 - 19800000)]
  \<and> filterData (fixed_zone 19800000)
     [sample 20 (1704423600000 - 19800000), sample 21 (1704463200000 - 19800000),
      sample 22 (1707102000000 - 19800000)]
     (Str ''hour'') (Str ''3'')
   = [sample 20 (1704423600000 - 19800000), sample 22 (1707102000000 - 19800000)]
  \<and> filterData (fixed_zone 19800000)
     [sample 20 (1704423600000 - 19800000), sample 21 (1704463200000 - 19800000),
      sample 22 (1707102000000 - 19800000)]
     (Str ''year'') (Str ''2024'')
   = [sample 20 (1704423600000 - 19800000), sample 21 (1704463200000 - 19800000),
      sample 22 (1707102000000 - 19800000)]"
proof -
  have e: "east_of_UTC (fixed_zone 19800000) 1704412800000"
    "east_of_UTC (fixed_zone 19800000) 1704067200000"
    by (simp_all add: east_of_UTC_def fixed_zone_def msPerDay_def)
  show ?thesis
    by (rule filterData_example [OF stamped_at_sample stamped_at_sample stamped_at_sample e])
      simp_all
qed

text \<open>
  The claim as the spec words it fails twice. On a host at UTC the criterion \<^verbatim>\<open>day\<close>
  does not return the first two readings (it returns all three). On a host five hours
  west of UTC, where the same three local times are the timestamps below,
  \<^verbatim>\<open>2024-01-05\<close> reads as the 4th and \<^verbatim>\<open>2024\<close> as 2023: both filters return nothing.
\<close>

theorem filterData_example_counterexample:
  "filterData (fixed_zone 0)
     [sample 20 1704423600000, sample 21 1704463200000, sample 22 1707102000000]
     (Str ''day'') (Str ''2024-01-05'')
   \<noteq> [sample 20 1704423600000, sample 21 1704463200000]
  \<and> filterData (fixed_zone (- 18000000))
     [sample 20 1704441600000, sample 21 1704481200000, sample 22 1707120000000]
     (Str ''day'') (Str ''2024-01-05'') = []
  \<and> filterData (fixed_zone (- 18000000))
     [sample 20 1704441600000, sample 21 1704481200000, sample 22 1707120000000]
     (Str ''year'') (Str ''2024'') = []"
proof (intro conjI)
  have s: "stamped_at (fixed_zone 0) (sample 20 1704423600000) 1704423600000"
    "stamped_at (fixed_zone 0) (sample 21 1704463200000) 1704463200000"
    "stamped_at (fixed_zone 0) (sample 22 1707102000000) 1707102000000"
    using stamped_at_sample [of 1704423600000 0 20] stamped_at_sample [of 1704463200000 0 21]
      stamped_at_sample [of 1707102000000 0 22] by simp_all
  have e: "east_of_UTC (fixed_zone 0) 1704412800000"
    by (simp add: east_of_UTC_def fixed_zone_def msPerDay_def)
  from filter_day_5th [OF s e]
  show "filterData (fixed_zone 0)
     [sample 20 1704423600000, sample 21 1704463200000, sample 22 1707102000000]
     (Str ''day'') (Str ''2024-01-05'')
   \<noteq> [sample 20 1704423600000, sample 21 1704463200000]"
    by simp
next
  have w: "stamped_at (fixed_zone (- 18000000)) (sample 20 1704441600000) 1704423600000"
    "stamped_at (fixed_zone (- 18000000)) (sample 21 1704481200000) 1704463200000"
    "stamped_at (fixed_zone (- 18000000)) (sample 22 1707120000000) 1707102000000"
    using stamped_at_sample [of 1704423600000 "- 18000000" 20]
      stamped_at_sample [of 1704463200000 "- 18000000" 21]
      stamped_at_sample [of 1707102000000 "- 18000000" 22] by simp_all
  have d: "getDate (fixed_zone (- 18000000))
             (Date_parse (fixed_zone (- 18000000)) ''2024-01-05'') = Some 4"
    by (simp add: Date_parse_def iso_date_2024_01_05 getDate_def LocalTime_def fixed_zone_def
        fields_midnight)
  have y: "getFullYear (fixed_zone (- 18000000))
             (Date_parse (fixed_zone (- 18000000)) ''2024'') = Some 2023"
    by (simp add: Date_parse_def iso_date_2024 getFullYear_def LocalTime_def fixed_zone_def
        fields_midnight)
  show "filterData (fixed_zone (- 18000000))
     [sample 20 1704441600000, sample 21 1704481200000, sample 22 1707120000000]
     (Str ''day'') (Str ''2024-01-05'') = []"
    by (simp add: filterData_def d stamped_getters [OF w(1)] stamped_getters [OF w(2)]
        stamped_getters [OF w(3)] fields_5_Jan_3h fields_5_Jan_14h fields_5_Feb_3h)
  show "filterData (fixed_zone (- 18000000))
     [sample 20 1704441600000, sample 21 1704481200000, sample 22 1707120000000]
     (Str ''year'') (Str ''2024'') = []"
    by (simp add: filterData_def y stamped_getters [OF w(1)] stamped_getters [OF w(2)]
        stamped_getters [OF w(3)] fields_5_Jan_3h fields_5_Jan_14h fields_5_Feb_3h)
qed

section \<open>The partition store: what a call does to the world\<close>

lemma readFileSync_console [simp]:
  "readFileSync p (console_log m w) = readFileSync p w"
  "readFileSync p (console_error m err w) = readFileSync p w"
  by (simp_all add: readFileSync_def console_log_def console_error_def)

lemma existsSync_console [simp]:
  "existsSync d (console_log m w) = existsSync d w"
  "existsSync d (console_error m err w) = existsSync d w"
  by (simp_all add: existsSync_def console_log_def console_error_def)

lemma read_only_console [simp]:
  "read_only (console_log m w) = read_only w"
  "read_only (console_error m err w) = read_only w"
  by (simp_all add: console_log_def console_error_def)

lemma tree_console [simp]:
  "tree (console_log m w) = tree w"
  "tree (console_error m err w) = tree w"
  by (simp_all add: console_log_def console_error_def)

lemma readFileSync_exists: "readFileSync p w = Inr t \<Longrightarrow> existsSync (fst p) w"
  by (auto simp: readFileSync_def existsSync_def split: option.splits)

text \<open>A path holds no file, an array of readings, or garbled text.\<close>

lemma readFileSync_cases:
  obtains "readFileSync p w = Inl ENOENT" | d where "readFileSync p w = Inr (Json_text d)"
  | "readFileSync p w = Inr Garbled"
proof (cases "readFileSync p w")
  case (Inl err)
  then have "err = ENOENT"
    by (auto simp: readFileSync_def split: option.splits)
  with Inl that show ?thesis by simp
next
  case (Inr t)
  with that show ?thesis by (cases t) auto
qed

lemma getDataFilePath_exists:
  "existsSync (fst (partition_path e now)) w \<Longrightarrow>
   getDataFilePath e now w = (Inr (partition_path e now), w)"
  by (simp add: getDataFilePath_def)

lemma getDataFilePath_cases:
  "getDataFilePath e now w =
     (if existsSync (fst (partition_path e now)) w then (Inr (partition_path e now), w)
      else if read_only w then (Inl EROFS, w)
      else (Inr (partition_path e now),
            w\<lparr>tree := (tree w)(fst (partition_path e now) \<mapsto> Map.empty)\<rparr>))"
  by (simp add: getDataFilePath_def mkdirSync_def Let_def)

lemma writeWeatherData_cases:
  "writeWeatherData e now data w =
     (if read_only w then (Inl EROFS, w)
      else (Inr (),
            w\<lparr>tree := (tree w)(fst (partition_path e now) \<mapsto>
               (case tree w (fst (partition_path e now)) of
                  None \<Rightarrow> Map.empty
                | Some files \<Rightarrow> files)
                 (snd (partition_path e now) \<mapsto> Json_text data))\<rparr>))"
  by (auto simp: writeWeatherData_def getDataFilePath_cases writeFileSync_def existsSync_def
      JSON_stringify_def split: option.splits)

lemma writeWeatherData_result:
  "fst (writeWeatherData e now data w) = (if read_only w then Inl EROFS else Inr ())"
  by (simp add: writeWeatherData_cases)

lemma read_only_write [simp]: "read_only (snd (writeWeatherData e now data w)) = read_only w"
  by (simp add: writeWeatherData_cases)

lemma readFileSync_write:
  "readFileSync q (snd (writeWeatherData e now data w)) =
     (if \<not> read_only w \<and> q = partition_path e now then Inr (Json_text data)
      else readFileSync q w)"
  by (cases q; cases "partition_path e now")
    (auto simp: writeWeatherData_cases readFileSync_def split: option.splits)

lemma readWeatherData_stored:
  "readFileSync (partition_path e now) w = Inr (Json_text data) \<Longrightarrow>
   readWeatherData e now w = (Inr data, w)"
  by (frule readFileSync_exists) (simp add: readWeatherData_def getDataFilePath_exists try_read_def)

lemma readWeatherData_garbled:
  "readFileSync (partition_path e now) w = Inr Garbled \<Longrightarrow>
   readWeatherData e now w = (Inr [], console_error ''Error reading weather data:'' SyntaxError w)"
  by (frule readFileSync_exists) (simp add: readWeatherData_def getDataFilePath_exists try_read_def)

lemma readFileSync_mkdir:
  "\<not> existsSync (fst p) w \<Longrightarrow>
   readFileSync p (w\<lparr>tree := (tree w)(fst p \<mapsto> Map.empty)\<rparr>) = Inl ENOENT"
  by (simp add: readFileSync_def)

lemma readWeatherData_absent:
  assumes "readFileSync (partition_path e now) w = Inl ENOENT"
  shows "readWeatherData e now w =
     (if read_only w then (Inl EROFS,
          if existsSync (fst (partition_path e now)) w
          then console_log (''Creating new file for '' @ getCurrentMonth e now @ '' in ''
                 @ template (Some (getCurrentYear e now))) w
          else w)
      else (Inr [], snd (writeWeatherData e now []
             (console_log (''Creating new file for '' @ getCurrentMonth e now @ '' in ''
                 @ template (Some (getCurrentYear e now))) w))))"
proof (cases "existsSync (fst (partition_path e now)) w")
  case True
  then show ?thesis using assms
    by (simp add: readWeatherData_def getDataFilePath_exists try_read_def Let_def
        writeWeatherData_cases)
next
  case False
  then show ?thesis using assms
    apply (simp add: readWeatherData_def getDataFilePath_cases try_read_def Let_def
        readFileSync_mkdir)
    apply (simp add: writeWeatherData_cases console_log_def existsSync_def)
    done
qed

lemma readWeatherData_result:
  "fst (readWeatherData e now w) =
     (if readFileSync (partition_path e now) w = Inl ENOENT \<and> read_only w then Inl EROFS
      else Inr (stored e now w))"
  by (rule readFileSync_cases [of "partition_path e now" w])
    (simp_all add: readWeatherData_absent readWeatherData_stored readWeatherData_garbled
      stored_def try_read_def)

lemma readFileSync_read:
  "readFileSync q (snd (readWeatherData e now w)) =
     (if \<not> read_only w \<and> q = partition_path e now
         \<and> readFileSync (partition_path e now) w = Inl ENOENT
      then Inr (Json_text []) else readFileSync q w)"
  by (rule readFileSync_cases [of "partition_path e now" w])
    (auto simp: readWeatherData_absent readWeatherData_stored readWeatherData_garbled
      readFileSync_write)

lemma read_only_read [simp]: "read_only (snd (readWeatherData e now w)) = read_only w"
  by (rule readFileSync_cases [of "partition_path e now" w])
    (simp_all add: readWeatherData_absent readWeatherData_stored readWeatherData_garbled)

lemma readFileSync_holding [simp]: "readFileSync p (holding p t) = Inr t"
  by (simp add: readFileSync_def holding_def)

lemma readFileSync_fresh [simp]: "readFileSync p fresh = Inl ENOENT"
  by (simp add: readFileSync_def fresh_def)

lemma read_only_examples [simp]: "\<not> read_only fresh" "\<not> read_only (holding p t)"
  by (simp_all add: fresh_def holding_def)

text \<open>
  C5. When the read of the current partition fails for a reason other than absence
  (the file is there and \<^verbatim>\<open>JSON.parse\<close> rejects it), \<^verbatim>\<open>readWeatherData\<close> returns
  the empty sequence, not an exception, and the world differs from the one before only
  by the line \<^verbatim>\<open>console.error\<close> wrote.
\<close>

theorem load_fail_open:
  assumes "try_read (partition_path e now) w = Inl err" and "err \<noteq> ENOENT"
  shows "readWeatherData e now w
         = (Inr [], console_error ''Error reading weather data:'' err w)"
proof (rule readFileSync_cases [of "partition_path e now" w])
  assume "readFileSync (partition_path e now) w = Inr Garbled"
  moreover from this assms(1) have "err = SyntaxError"
    by (simp add: try_read_def)
  ultimately show ?thesis
    by (simp add: readWeatherData_garbled)
qed (use assms in \<open>simp_all add: try_read_def\<close>)

theorem load_fail_open_witness:
  "try_read (partition_path (fixed_zone 0) 1704423600000)
     (holding (partition_path (fixed_zone 0) 1704423600000) Garbled) = Inl SyntaxError
   \<and> SyntaxError \<noteq> ENOENT
   \<and> readWeatherData (fixed_zone 0) 1704423600000
       (holding (partition_path (fixed_zone 0) 1704423600000) Garbled)
     = (Inr [], console_error ''Error reading weather data:'' SyntaxError
                  (holding (partition_path (fixed_zone 0) 1704423600000) Garbled))"
proof -
  have a: "try_read (partition_path (fixed_zone 0) 1704423600000)
     (holding (partition_path (fixed_zone 0) 1704423600000) Garbled) = Inl SyntaxError"
    by (simp add: try_read_def)
  have b: "SyntaxError \<noteq> ENOENT"
    by simp
  from a b load_fail_open [OF a b] show ?thesis
    by simp
qed

text \<open>
  C7. When the current partition has no file and the file system takes writes,
  \<^verbatim>\<open>readWeatherData\<close> returns the empty sequence and leaves the file behind, holding
  the empty sequence. More generally, on a file system that takes writes a read returns
  the stored sequence and a write returns normally; and after any read or write that
  returned normally the partition's file exists (after a write, holding what was
  written). On a file system that refuses writes the creation throws instead.
\<close>

theorem load_creates_partition:
  "(readFileSync (partition_path e now) w = Inl ENOENT \<and> \<not> read_only w \<longrightarrow>
      fst (readWeatherData e now w) = Inr []
      \<and> readFileSync (partition_path e now) (snd (readWeatherData e now w)) = Inr (Json_text []))
   \<and> (\<not> read_only w \<longrightarrow> fst (readWeatherData e now w) = Inr (stored e now w))
   \<and> (\<forall>data. fst (readWeatherData e now w) = Inr data \<longrightarrow>
        readFileSync (partition_path e now) (snd (readWeatherData e now w)) \<noteq> Inl ENOENT)
   \<and> (\<not> read_only w \<longrightarrow> fst (writeWeatherData e now data' w) = Inr ())
   \<and> (\<forall>u. fst (writeWeatherData e now data' w) = Inr u \<longrightarrow>
        readFileSync (partition_path e now) (snd (writeWeatherData e now data' w))
        = Inr (Json_text data'))"
  by (auto simp: readWeatherData_result readFileSync_read readFileSync_write
      writeWeatherData_result stored_def try_read_def split: if_splits)

theorem load_creates_partition_witness:
  "readFileSync (partition_path (fixed_zone 0) 1704423600000) fresh = Inl ENOENT
   \<and> \<not> read_only fresh
   \<and> fst (readWeatherData (fixed_zone 0) 1704423600000 fresh) = Inr []
   \<and> readFileSync (partition_path (fixed_zone 0) 1704423600000)
        (snd (readWeatherData (fixed_zone 0) 1704423600000 fresh)) = Inr (Json_text [])
   \<and> fst (writeWeatherData (fixed_zone 0) 1704423600000 [sample 20 1704423600000] fresh) = Inr ()
   \<and> readFileSync (partition_path (fixed_zone 0) 1704423600000)
        (snd (writeWeatherData (fixed_zone 0) 1704423600000 [sample 20 1704423600000] fresh))
      = Inr (Json_text [sample 20 1704423600000])"
  using load_creates_partition [of "fixed_zone 0" 1704423600000 fresh "[sample 20 1704423600000]"]
  by simp

text \<open>
  C8. A write that returns normally (as every write does on a file system that takes
  writes), followed by a read that resolves to the same partition, returns the sequence
  written, in its order, and changes nothing.
\<close>

theorem save_load_round_trip:
  "(\<not> read_only w \<longrightarrow> fst (writeWeatherData e now data w) = Inr ())
   \<and> (fst (writeWeatherData e now data w) = Inr () \<and> partition_path e now' = partition_path e now
        \<longrightarrow> readWeatherData e now' (snd (writeWeatherData e now data w))
            = (Inr data, snd (writeWeatherData e now data w)))"
proof (intro conjI impI)
  assume "\<not> read_only w"
  then show "fst (writeWeatherData e now data w) = Inr ()"
    by (simp add: writeWeatherData_result)
next
  assume a: "fst (writeWeatherData e now data w) = Inr ()
             \<and> partition_path e now' = partition_path e now"
  then have "\<not> read_only w"
    by (simp add: writeWeatherData_result split: if_splits)
  with a have "readFileSync (partition_path e now') (snd (writeWeatherData e now data w))
               = Inr (Json_text data)"
    by (simp add: readFileSync_write)
  then show "readWeatherData e now' (snd (writeWeatherData e now data w))
            = (Inr data, snd (writeWeatherData e now data w))"
    by (rule readWeatherData_stored)
qed

theorem save_load_round_trip_witness:
  "\<not> read_only fresh
   \<and> fst (writeWeatherData (fixed_zone 0) 1704423600000
            [sample 20 1704423600000, sample 21 1704463200000] fresh) = Inr ()
   \<and> readWeatherData (fixed_zone 0) 1704423600000
       (snd (writeWeatherData (fixed_zone 0) 1704423600000
               [sample 20 1704423600000, sample 21 1704463200000] fresh))
     = (Inr [sample 20 1704423600000, sample 21 1704463200000],
        snd (writeWeatherData (fixed_zone 0) 1704423600000
               [sample 20 1704423600000, sample 21 1704463200000] fresh))"
  using save_load_round_trip [of fresh "fixed_zone 0" 1704423600000
      "[sample 20 1704423600000, sample 21 1704463200000]" 1704423600000]
  by simp

section \<open>The ingestion engine: what an invocation does to the store\<close>

lemma fetch_unfold:
  "fetchDataFromApi e c (Api_data t h) w =
     (let r = readWeatherData e (at_read c) w
      in case fst r of
           Inl err \<Rightarrow> console_error ''Error fetching data from API:'' err (snd r)
         | Inr existingData \<Rightarrow>
             if \<not> hasCurrentHourData e (at_test c) existingData then
               (let wr = writeWeatherData e (at_write c)
                           (existingData @ [newWeatherData (at_stamp c) t h]) (snd r)
                in case fst wr of
                     Inl err \<Rightarrow> console_error ''Error fetching data from API:'' err (snd wr)
                   | Inr u \<Rightarrow> console_log ''Data fetched and saved successfully.'' (snd wr))
             else console_log ''Data for the current hour already exists.'' (snd r))"
  by (simp add: fetchDataFromApi_def split: prod.splits sum.splits)

lemma read_only_fetch [simp]: "read_only (fetchDataFromApi e c r w) = read_only w"
  by (cases r) (simp_all add: fetch_unfold Let_def fetchDataFromApi_def [of e c Api_failure]
      split: sum.splits)

lemma fetch_skip:
  assumes "readWeatherData e (at_read c) w = (Inr existingData, w1)"
      and "hasCurrentHourData e (at_test c) existingData"
  shows "fetchDataFromApi e c (Api_data t h) w
         = console_log ''Data for the current hour already exists.'' w"
proof -
  from assms(2) have ne: "existingData \<noteq> []"
    by (auto simp: hasCurrentHourData_def)
  have "readWeatherData e (at_read c) w = (Inr existingData, w)"
  proof (rule readFileSync_cases [of "partition_path e (at_read c)" w])
    assume "readFileSync (partition_path e (at_read c)) w = Inl ENOENT"
    with assms(1) ne show ?thesis
      by (simp add: readWeatherData_absent split: if_splits)
  next
    fix d assume "readFileSync (partition_path e (at_read c)) w = Inr (Json_text d)"
    with assms(1) show ?thesis
      by (simp add: readWeatherData_stored)
  next
    assume "readFileSync (partition_path e (at_read c)) w = Inr Garbled"
    with assms(1) ne show ?thesis
      by (simp add: readWeatherData_garbled)
  qed
  with assms(2) show ?thesis
    by (simp add: fetchDataFromApi_def)
qed

lemma stored_Json:
  "readFileSync (partition_path e now) w = Inr (Json_text d) \<Longrightarrow> stored e now w = d"
  by (simp add: stored_def try_read_def)

lemma has_stored:
  assumes "hasCurrentHourData e now' (stored e now w)"
  shows "readFileSync (partition_path e now) w = Inr (Json_text (stored e now w))"
proof (rule readFileSync_cases [of "partition_path e now" w])
  fix d assume "readFileSync (partition_path e now) w = Inr (Json_text d)"
  then show ?thesis
    by (simp add: stored_def try_read_def)
qed (use assms in \<open>simp_all add: stored_def try_read_def hasCurrentHourData_def\<close>)

text \<open>
  What the file system holds after an invocation that the sensor answered: the new
  sequence at the path the write resolved to, if the file system takes writes and the
  tested hour was not found; elsewhere what the read left.
\<close>

lemma readFileSync_fetch:
  "readFileSync q (fetchDataFromApi e c (Api_data t h) w) =
     (if \<not> read_only w \<and> \<not> hasCurrentHourData e (at_test c) (stored e (at_read c) w)
         \<and> q = partition_path e (at_write c)
      then Inr (Json_text (stored e (at_read c) w @ [newWeatherData (at_stamp c) t h]))
      else readFileSync q (snd (readWeatherData e (at_read c) w)))"
  by (simp add: fetch_unfold Let_def readWeatherData_result writeWeatherData_result
      readFileSync_write)

lemma readFileSync_fetch_steady:
  assumes "partition_path e (at_write c) = partition_path e (at_read c)"
  shows "readFileSync q (fetchDataFromApi e c (Api_data t h) w) =
     (if \<not> read_only w \<and> q = partition_path e (at_read c)
      then Inr (Json_text (if hasCurrentHourData e (at_test c) (stored e (at_read c) w)
                           then stored e (at_read c) w
                           else stored e (at_read c) w @ [newWeatherData (at_stamp c) t h]))
      else readFileSync q w)"
  using has_stored [of e "at_test c" "at_read c" w]
  by (auto simp: readFileSync_fetch readFileSync_read assms stored_def try_read_def)

lemma readFileSync_fetch_failure:
  "readFileSync q (fetchDataFromApi e c Api_failure w) = readFileSync q w"
  by (simp add: fetchDataFromApi_def)

lemma fetch_full_tree:
  assumes "hasCurrentHourData e (at_test c) (stored e (at_read c) w)"
  shows "tree (fetchDataFromApi e c r w) = tree w"
proof (cases r)
  case Api_failure
  then show ?thesis by (simp add: fetchDataFromApi_def)
next
  case (Api_data t h)
  from has_stored [OF assms]
  have "readWeatherData e (at_read c) w = (Inr (stored e (at_read c) w), w)"
    by (rule readWeatherData_stored)
  from fetch_skip [OF this assms] show ?thesis
    by (simp add: Api_data)
qed

text \<open>Hours of the day.\<close>

lemma HourFromTime_range: "0 \<le> HourFromTime t \<and> HourFromTime t < 24"
  by (simp add: HourFromTime_def)

lemma currentHour_Some: "currentHour e now = Some (HourFromTime (LocalTime e now))"
  by (simp add: currentHour_def getHours_def)

lemma entry_hour_valid:
  "TimeClip (timestamp entry) = Some (timestamp entry) \<Longrightarrow>
   getHours e (entry_date e entry) = Some (HourFromTime (LocalTime e (timestamp entry)))"
  by (simp add: getHours_def entry_date_def)

lemma strict_eq_Some [simp]: "strict_eq x (Some h) = (x = Some h)"
  by (cases x) auto

lemma has_iff:
  "hasCurrentHourData e now data
   = (currentHour e now \<in> set (map (\<lambda>entry. getHours e (entry_date e entry)) data))"
  by (force simp: hasCurrentHourData_def list_ex_iff currentHour_Some)

lemma new_hour:
  "TimeClip stamp = Some stamp \<Longrightarrow>
   getHours e (entry_date e (newWeatherData stamp t h)) = currentHour e stamp"
  by (simp add: entry_hour_valid newWeatherData_def currentHour_Some)

lemma steady_instant: "TimeClip now = Some now \<Longrightarrow> steady e (instant now)"
  by (simp add: steady_def instant_def)

lemma hourly_append:
  assumes "hourly e data" and "steady e c" and "\<not> hasCurrentHourData e (at_test c) data"
  shows "hourly e (data @ [newWeatherData (at_stamp c) t h])"
proof -
  from assms(2) have v: "TimeClip (at_stamp c) = Some (at_stamp c)"
    and s: "currentHour e (at_stamp c) = currentHour e (at_test c)"
    by (simp_all add: steady_def)
  from assms(3) have "currentHour e (at_test c)
      \<notin> set (map (\<lambda>entry. getHours e (entry_date e entry)) data)"
    by (simp only: has_iff not_False_eq_True)
  with assms(1) v s show ?thesis
    by (simp add: hourly_def new_hour) (simp add: newWeatherData_def)
qed

lemma hourly_Nil [simp]: "hourly e []"
  by (simp add: hourly_def)

lemma hourly_stored:
  assumes "hourly_world e w"
  shows "hourly e (stored e now w)"
proof (rule readFileSync_cases [of "partition_path e now" w])
  fix d assume a: "readFileSync (partition_path e now) w = Inr (Json_text d)"
  with assms have "hourly e d"
    unfolding hourly_world_def by blast
  with stored_Json [OF a] show ?thesis
    by simp
qed (simp_all add: stored_def try_read_def)

lemma hourly_fetch:
  assumes "hourly_world e w" and "steady e c"
  shows "hourly_world e (fetchDataFromApi e c r w)"
proof (cases r)
  case Api_failure
  with assms(1) show ?thesis
    by (simp add: hourly_world_def readFileSync_fetch_failure)
next
  case (Api_data t h)
  from hourly_stored [OF assms(1)] have s: "hourly e (stored e (at_read c) w)" .
  show ?thesis
    unfolding hourly_world_def Api_data readFileSync_fetch readFileSync_read
    using assms(1) s hourly_append [OF s assms(2)]
    by (auto simp: hourly_world_def split: if_splits)
qed

lemma hourly_schedule:
  "hourly_world e w \<Longrightarrow> steady_ticks e ticks \<Longrightarrow> hourly_world e (schedule e ticks w)"
proof (induction ticks arbitrary: w)
  case Nil
  then show ?case by simp
next
  case (Cons tick ticks)
  obtain c r where tick: "tick = (c, r)" by (cases tick)
  from Cons.prems(2) have v: "steady e c" and vs: "steady_ticks e ticks"
    by (simp_all add: steady_ticks_def tick)
  from Cons.IH [OF hourly_fetch [OF Cons.prems(1) v] vs] show ?case
    by (simp add: tick)
qed

lemma hourly_hours:
  assumes "hourly e data"
  shows "set (map (\<lambda>entry. getHours e (entry_date e entry)) data) \<subseteq> Some ` {0..<24}"
proof
  fix x assume "x \<in> set (map (\<lambda>entry. getHours e (entry_date e entry)) data)"
  then obtain entry where en: "entry \<in> set data" and x: "x = getHours e (entry_date e entry)"
    by auto
  from assms en have "TimeClip (timestamp entry) = Some (timestamp entry)"
    by (simp add: hourly_def list_all_iff)
  from entry_hour_valid [OF this] x HourFromTime_range [of "LocalTime e (timestamp entry)"]
  show "x \<in> Some ` {0..<24}"
    by simp
qed

lemma hourly_length:
  assumes "hourly e data"
  shows "length data \<le> 24"
proof -
  let ?hs = "map (\<lambda>entry. getHours e (entry_date e entry)) data"
  from assms have "distinct ?hs" by (simp add: hourly_def)
  from distinct_card [OF this] have "length data = card (set ?hs)"
    by simp
  also have "\<dots> \<le> card (Some ` {0..<24::int})"
    by (rule card_mono) (use hourly_hours [OF assms] in simp_all)
  also have "\<dots> = 24"
    by (simp add: card_image)
  finally show ?thesis .
qed

lemma hourly_full:
  assumes "hourly e data" and "length data = 24"
  shows "hasCurrentHourData e now data"
proof -
  let ?hs = "map (\<lambda>entry. getHours e (entry_date e entry)) data"
  from assms(1) have "distinct ?hs" by (simp add: hourly_def)
  from distinct_card [OF this] have "card (set ?hs) = 24"
    using assms(2) by simp
  moreover have "card (Some ` {0..<24::int}) = 24"
    by (simp add: card_image)
  ultimately have "set ?hs = Some ` {0..<24}"
    using hourly_hours [OF assms(1)] by (intro card_subset_eq) simp_all
  moreover have "currentHour e now \<in> Some ` {0..<24}"
    using HourFromTime_range [of "LocalTime e now"] by (simp add: currentHour_Some)
  ultimately show ?thesis
    by (simp only: has_iff)
qed

lemma readFileSync_tree: "tree w = tree w' \<Longrightarrow> readFileSync q w = readFileSync q w'"
  by (simp add: readFileSync_def)

lemma full_schedule:
  "readFileSync p w = Inr (Json_text d) \<Longrightarrow> hourly e d \<Longrightarrow> length d = 24 \<Longrightarrow>
   reading_from e p ticks \<Longrightarrow> tree (schedule e ticks w) = tree w"
proof (induction ticks arbitrary: w)
  case Nil
  then show ?case by simp
next
  case (Cons tick ticks)
  obtain c r where tick: "tick = (c, r)" by (cases tick)
  from Cons.prems(4) have p: "p = partition_path e (at_read c)"
    and rs: "reading_from e p ticks"
    by (simp_all add: reading_from_def tick)
  from Cons.prems(1) p have "stored e (at_read c) w = d"
    by (simp add: stored_Json)
  with hourly_full [OF Cons.prems(2,3), of "at_test c"]
  have "hasCurrentHourData e (at_test c) (stored e (at_read c) w)"
    by simp
  from fetch_full_tree [OF this] have t: "tree (fetchDataFromApi e c r w) = tree w" .
  from readFileSync_tree [OF this] Cons.prems(1)
  have "readFileSync p (fetchDataFromApi e c r w) = Inr (Json_text d)"
    by simp
  from Cons.IH [OF this Cons.prems(2,3) rs] t show ?case
    by (simp add: tick)
qed

lemma has_cong:
  "currentHour e now' = currentHour e now \<Longrightarrow>
   hasCurrentHourData e now' d = hasCurrentHourData e now d"
  by (simp add: hasCurrentHourData_def)

lemma stored_tree: "tree w = tree w' \<Longrightarrow> stored e now w = stored e now w'"
  by (simp add: stored_def try_read_def readFileSync_def)

lemma stored_path:
  "partition_path e now' = partition_path e now \<Longrightarrow> stored e now' w = stored e now w"
  by (simp add: stored_def)

lemma has_count: "hasCurrentHourData e now d = (0 < hour_count e (currentHour e now) d)"
  by (simp add: hasCurrentHourData_def hour_count_def list_ex_iff filter_empty_conv)

lemma hour_count_append:
  "hour_count e h (d @ d') = hour_count e h d + hour_count e h d'"
  by (simp add: hour_count_def)

lemma hour_count_new:
  "TimeClip stamp = Some stamp \<Longrightarrow>
   hour_count e (currentHour e stamp) [newWeatherData stamp t h] = 1"
  by (simp add: hour_count_def new_hour currentHour_Some)

lemma fetch_twice:
  assumes ro: "\<not> read_only w" and st: "steady e c"
      and pw: "partition_path e (at_write c) = partition_path e (at_read c)"
      and p: "partition_path e (at_read c') = partition_path e (at_read c)"
      and h: "currentHour e (at_test c') = currentHour e (at_test c)"
      and le: "hour_count e (currentHour e (at_test c)) (stored e (at_read c) w) \<le> 1"
  shows "hour_count e (currentHour e (at_test c))
           (stored e (at_read c)
              (fetchDataFromApi e c' r' (fetchDataFromApi e c (Api_data t h) w))) = 1"
    and "tree (fetchDataFromApi e c' r' (fetchDataFromApi e c (Api_data t h) w))
         = tree (fetchDataFromApi e c (Api_data t h) w)"
proof -
  let ?w1 = "fetchDataFromApi e c (Api_data t h) w"
  let ?S = "stored e (at_read c) w"
  let ?X = "if hasCurrentHourData e (at_test c) ?S then ?S
            else ?S @ [newWeatherData (at_stamp c) t h]"
  from st have v: "TimeClip (at_stamp c) = Some (at_stamp c)"
    and s: "currentHour e (at_stamp c) = currentHour e (at_test c)"
    by (simp_all add: steady_def)
  from ro have "readFileSync (partition_path e (at_read c)) ?w1 = Inr (Json_text ?X)"
    by (simp add: readFileSync_fetch_steady [OF pw])
  then have sx: "stored e (at_read c) ?w1 = ?X"
    by (rule stored_Json)
  have one: "hour_count e (currentHour e (at_test c)) ?X = 1"
    using le hour_count_new [OF v, of e t h]
    by (auto simp: has_count hour_count_append s)
  then have "hasCurrentHourData e (at_test c) ?X"
    by (simp only: has_count)
  with sx have "hasCurrentHourData e (at_test c) (stored e (at_read c) ?w1)"
    by simp
  then have "hasCurrentHourData e (at_test c') (stored e (at_read c') ?w1)"
    by (simp add: has_cong [OF h] stored_path [OF p])
  from fetch_full_tree [OF this]
  show t: "tree (fetchDataFromApi e c' r' ?w1) = tree ?w1" .
  from stored_tree [OF t] sx one
  show "hour_count e (currentHour e (at_test c))
          (stored e (at_read c) (fetchDataFromApi e c' r' ?w1)) = 1"
    by simp
qed

text \<open>
  C2. If the sequence \<^verbatim>\<open>readWeatherData\<close> loads has a reading in the hour of the day
  that the invocation tests, \<^verbatim>\<open>fetchDataFromApi\<close> writes nothing: the world afterwards
  is the world before plus the line \<^verbatim>\<open>Data for the current hour already exists.\<close> on
  the console (no error is logged). And two invocations in the same hour of the day:
  the first stamps its reading in the hour it tests and writes to the partition it read,
  the second reads the same partition and tests the same hour, the file system takes
  writes, the sensor answers the first, and the partition holds at most one reading of
  that hour before. Afterwards the partition holds exactly one, and the second
  invocation left the file system as the first left it.
\<close>

theorem ingest_idempotent:
  "(readWeatherData e (at_read c) w = (Inr existingData, w1)
      \<and> hasCurrentHourData e (at_test c) existingData
      \<longrightarrow> fetchDataFromApi e c (Api_data t h) w
           = console_log ''Data for the current hour already exists.'' w)
   \<and> (\<not> read_only w \<and> steady e c
       \<and> partition_path e (at_write c) = partition_path e (at_read c)
       \<and> partition_path e (at_read c') = partition_path e (at_read c)
       \<and> currentHour e (at_test c') = currentHour e (at_test c)
       \<and> hour_count e (currentHour e (at_test c)) (stored e (at_read c) w) \<le> 1
      \<longrightarrow> hour_count e (currentHour e (at_test c))
            (stored e (at_read c)
               (fetchDataFromApi e c' r' (fetchDataFromApi e c (Api_data t h) w))) = 1
          \<and> tree (fetchDataFromApi e c' r' (fetchDataFromApi e c (Api_data t h) w))
            = tree (fetchDataFromApi e c (Api_data t h) w))"
proof (intro conjI impI)
  assume "readWeatherData e (at_read c) w = (Inr existingData, w1)
          \<and> hasCurrentHourData e (at_test c) existingData"
  then show "fetchDataFromApi e c (Api_data t h) w
             = console_log ''Data for the current hour already exists.'' w"
    by (simp add: fetch_skip)
next
  assume a: "\<not> read_only w \<and> steady e c
       \<and> partition_path e (at_write c) = partition_path e (at_read c)
       \<and> partition_path e (at_read c') = partition_path e (at_read c)
       \<and> currentHour e (at_test c') = currentHour e (at_test c)
       \<and> hour_count e (currentHour e (at_test c)) (stored e (at_read c) w) \<le> 1"
  then show "hour_count e (currentHour e (at_test c))
            (stored e (at_read c)
               (fetchDataFromApi e c' r' (fetchDataFromApi e c (Api_data t h) w))) = 1"
    by (intro fetch_twice) simp_all
  from a show "tree (fetchDataFromApi e c' r' (fetchDataFromApi e c (Api_data t h) w))
            = tree (fetchDataFromApi e c (Api_data t h) w)"
    by (intro fetch_twice) simp_all
qed

text \<open>
  The same for invocations that take no time: two of them at instants in the same hour
  of the day and the same partition.
\<close>

lemma fetch_twice_instant:
  assumes "\<not> read_only w" and "TimeClip now = Some now"
      and "partition_path e now' = partition_path e now"
      and "currentHour e now' = currentHour e now"
      and "hour_count e (currentHour e now) (stored e now w) \<le> 1"
  shows "hour_count e (currentHour e now)
           (stored e now (fetchDataFromApi e (instant now') r'
              (fetchDataFromApi e (instant now) (Api_data t h) w))) = 1"
    and "tree (fetchDataFromApi e (instant now') r'
              (fetchDataFromApi e (instant now) (Api_data t h) w))
         = tree (fetchDataFromApi e (instant now) (Api_data t h) w)"
  using fetch_twice [where w = w and e = e and c = "instant now" and c' = "instant now'"
      and t = t and h = h and r' = r'] assms
  by (simp_all add: steady_instant) (simp_all add: instant_def)

lemma partition_january:
  "partition_path (fixed_zone 0) 1704423600000 = (''data_2024'', ''weather_data_January.json'')"
  "partition_path (fixed_zone 0) 1704423600001 = (''data_2024'', ''weather_data_January.json'')"
  "partition_path (fixed_zone 0) 1704423600003 = (''data_2024'', ''weather_data_January.json'')"
  "partition_path (fixed_zone 0) 1704424800001 = (''data_2024'', ''weather_data_January.json'')"
  "partition_path (fixed_zone 0) 1704427200000 = (''data_2024'', ''weather_data_January.json'')"
  "partition_path (fixed_zone 0) 1704430800000 = (''data_2024'', ''weather_data_January.json'')"
  by code_simp+

lemma hours_example:
  "HourFromTime 1704423600000 = 3" "HourFromTime 1704423600002 = 3"
  "HourFromTime 1704424800000 = 3" "HourFromTime 1704424800002 = 3"
  "HourFromTime 1704427199999 = 3"
  "HourFromTime 1704427200000 = 4" "HourFromTime 1704430800000 = 5"
  by code_simp+

lemma currentHour_fixed_zone: "currentHour (fixed_zone 0) now = Some (HourFromTime now)"
  by (simp add: currentHour_def getHours_def LocalTime_def fixed_zone_def)

lemma has_fixed_zone:
  "hasCurrentHourData (fixed_zone 0) now data
   = list_ex (\<lambda>entry. \<bar>timestamp entry\<bar> \<le> 8640000000000000
                      \<and> HourFromTime (timestamp entry) = HourFromTime now) data"
  by (auto simp: hasCurrentHourData_def currentHour_def getHours_def entry_date_def TimeClip_def
      LocalTime_def fixed_zone_def list_ex_iff)

lemma stored_fresh [simp]: "stored e now fresh = []"
  by (simp add: stored_def try_read_def)

theorem ingest_idempotent_witness:
  "readWeatherData (fixed_zone 0) (at_read second_call)
     (holding (partition_path (fixed_zone 0) (at_read second_call))
        (Json_text [sample 20 1704423600000]))
   = (Inr [sample 20 1704423600000],
      holding (partition_path (fixed_zone 0) (at_read second_call))
        (Json_text [sample 20 1704423600000]))
   \<and> hasCurrentHourData (fixed_zone 0) (at_test second_call) [sample 20 1704423600000]
   \<and> fetchDataFromApi (fixed_zone 0) second_call (Api_data 21 55)
       (holding (partition_path (fixed_zone 0) (at_read second_call))
          (Json_text [sample 20 1704423600000]))
     = console_log ''Data for the current hour already exists.''
         (holding (partition_path (fixed_zone 0) (at_read second_call))
            (Json_text [sample 20 1704423600000]))
   \<and> \<not> read_only fresh
   \<and> steady (fixed_zone 0) first_call
   \<and> partition_path (fixed_zone 0) (at_write first_call)
     = partition_path (fixed_zone 0) (at_read first_call)
   \<and> partition_path (fixed_zone 0) (at_read second_call)
     = partition_path (fixed_zone 0) (at_read first_call)
   \<and> currentHour (fixed_zone 0) (at_test second_call)
     = currentHour (fixed_zone 0) (at_test first_call)
   \<and> hour_count (fixed_zone 0) (currentHour (fixed_zone 0) (at_test first_call))
        (stored (fixed_zone 0) (at_read first_call) fresh) \<le> 1
   \<and> hour_count (fixed_zone 0) (currentHour (fixed_zone 0) (at_test first_call))
        (stored (fixed_zone 0) (at_read first_call)
           (fetchDataFromApi (fixed_zone 0) second_call (Api_data 21 55)
              (fetchDataFromApi (fixed_zone 0) first_call (Api_data 20 50) fresh))) = 1
   \<and> tree (fetchDataFromApi (fixed_zone 0) second_call (Api_data 21 55)
              (fetchDataFromApi (fixed_zone 0) first_call (Api_data 20 50) fresh))
     = tree (fetchDataFromApi (fixed_zone 0) first_call (Api_data 20 50) fresh)"
proof -
  let ?w = "holding (partition_path (fixed_zone 0) (at_read second_call))
              (Json_text [sample 20 1704423600000])"
  have a: "readWeatherData (fixed_zone 0) (at_read second_call) ?w
           = (Inr [sample 20 1704423600000], ?w)"
    by (rule readWeatherData_stored) simp
  have b: "hasCurrentHourData (fixed_zone 0) (at_test second_call) [sample 20 1704423600000]"
    by (simp add: has_fixed_zone second_call_def sample_def hours_example)
  have s: "steady (fixed_zone 0) first_call"
    by (simp add: steady_def first_call_def TimeClip_def currentHour_fixed_zone hours_example)
  have p: "partition_path (fixed_zone 0) (at_write first_call)
           = partition_path (fixed_zone 0) (at_read first_call)"
    "partition_path (fixed_zone 0) (at_read second_call)
     = partition_path (fixed_zone 0) (at_read first_call)"
    by (simp_all add: first_call_def second_call_def partition_january)
  have h: "currentHour (fixed_zone 0) (at_test second_call)
           = currentHour (fixed_zone 0) (at_test first_call)"
    by (simp add: first_call_def second_call_def currentHour_fixed_zone hours_example)
  have c: "hour_count (fixed_zone 0) (currentHour (fixed_zone 0) (at_test first_call))
        (stored (fixed_zone 0) (at_read first_call) fresh) \<le> 1"
    by (simp add: hour_count_def)
  from a b s p h c
    ingest_idempotent [of "fixed_zone 0" second_call ?w "[sample 20 1704423600000]" ?w 21 55]
    ingest_idempotent [of "fixed_zone 0" first_call fresh _ _ 20 50 second_call
      "Api_data 21 55"]
  show ?thesis
    by simp
qed

text \<open>
  C9, as the code has it. Start from a world whose partitions hold pairwise distinct
  hours of the day (the empty file system is one) and let the scheduler run, every
  invocation stamping its reading with a valid time value in the hour of the day that
  it tests. Then every partition holds readings of pairwise distinct hours of the day,
  hence at most 24 of them; and once a partition holds 24, the invocations whose reads
  resolve to it (those of the rest of the month), whatever their clocks and whatever
  the sensor answers, write nothing at all.
\<close>

theorem hourly_invariant:
  assumes "hourly_world e w" and "steady_ticks e ticks"
  shows "(\<forall>p d. readFileSync p (schedule e ticks w) = Inr (Json_text d) \<longrightarrow>
            distinct (map (\<lambda>entry. getHours e (entry_date e entry)) d) \<and> length d \<le> 24)
       \<and> (\<forall>p d more. readFileSync p (schedule e ticks w) = Inr (Json_text d) \<and> length d = 24
            \<and> reading_from e p more \<longrightarrow>
            tree (schedule e more (schedule e ticks w)) = tree (schedule e ticks w))"
proof -
  from hourly_schedule [OF assms] have hw: "hourly_world e (schedule e ticks w)" .
  have h: "hourly e d" if "readFileSync p (schedule e ticks w) = Inr (Json_text d)" for p d
    using hw that unfolding hourly_world_def by blast
  show ?thesis
  proof (intro conjI allI impI)
    fix p d assume "readFileSync p (schedule e ticks w) = Inr (Json_text d)"
    from h [OF this] have hd: "hourly e d" .
    then show "distinct (map (\<lambda>entry. getHours e (entry_date e entry)) d)"
      by (simp add: hourly_def)
    from hd show "length d \<le> 24"
      by (rule hourly_length)
  next
    fix p d more
    assume a: "readFileSync p (schedule e ticks w) = Inr (Json_text d) \<and> length d = 24
               \<and> reading_from e p more"
    with h [of p d] show "tree (schedule e more (schedule e ticks w)) = tree (schedule e ticks w)"
      by (intro full_schedule [of p _ d]) simp_all
  qed
qed

lemma upt_int_24:
  "[0..23::int] = [0,1,2,3,4,5,6,7,8,9,10,11,12,13,14,15,16,17,18,19,20,21,22,23]"
  by code_simp

lemma hourly_full_day: "hourly (fixed_zone 0) full_day"
  by (simp add: hourly_def full_day_def upt_int_24 sample_def TimeClip_def getHours_def
      entry_date_def HourFromTime_def LocalTime_def fixed_zone_def msPerHour_def)

lemma hourly_world_holding: "hourly e d \<Longrightarrow> hourly_world e (holding p (Json_text d))"
  by (auto simp: hourly_world_def readFileSync_def holding_def split: option.splits if_splits)

lemma hourly_world_fresh: "hourly_world e fresh"
  by (simp add: hourly_world_def)

lemma length_full_day: "length full_day = 24"
  by (simp add: full_day_def upt_int_24)

lemma same_partition:
  "partition_path (fixed_zone 0) 1704499500000 = partition_path (fixed_zone 0) 1704412800000"
  "partition_path (fixed_zone 0) 1704585900000 = partition_path (fixed_zone 0) 1704412800000"
  by code_simp+

lemma steady_examples:
  "steady (fixed_zone 0) first_call" "steady (fixed_zone 0) second_call"
  "steady (fixed_zone 0) third_call"
  by (simp_all add: steady_def first_call_def second_call_def third_call_def instant_def
      TimeClip_def currentHour_fixed_zone hours_example)

lemma run_example:
  "readFileSync (partition_path (fixed_zone 0) 1704423600000)
     (schedule (fixed_zone 0)
        [(first_call, Api_data 20 50), (second_call, Api_data 21 55),
         (third_call, Api_data 22 60)] fresh)
   = Inr (Json_text [newWeatherData 1704423600000 20 50, newWeatherData 1704430800000 22 60])"
  by (simp add: readFileSync_fetch readFileSync_read stored_def try_read_def partition_january
      first_call_def second_call_def third_call_def instant_def
      has_fixed_zone newWeatherData_def hours_example)

lemma straddling_run:
  "readFileSync (partition_path (fixed_zone 0) 1704423600000)
     (schedule (fixed_zone 0)
        [(instant 1704423600000, Api_data 20 50), (straddling_call, Api_data 21 55)] fresh)
   = Inr (Json_text [newWeatherData 1704423600000 20 50, newWeatherData 1704427199999 21 55])"
  by (simp add: readFileSync_fetch readFileSync_read stored_def try_read_def partition_january
      straddling_call_def instant_def has_fixed_zone newWeatherData_def hours_example)

theorem hourly_invariant_witness:
  "hourly_world (fixed_zone 0) fresh
   \<and> steady_ticks (fixed_zone 0)
       [(first_call, Api_data 20 50), (second_call, Api_data 21 55), (third_call, Api_data 22 60)]
   \<and> readFileSync (partition_path (fixed_zone 0) 1704423600000)
       (schedule (fixed_zone 0)
          [(first_call, Api_data 20 50), (second_call, Api_data 21 55),
           (third_call, Api_data 22 60)] fresh)
     = Inr (Json_text [newWeatherData 1704423600000 20 50, newWeatherData 1704430800000 22 60])
   \<and> distinct (map (\<lambda>entry. getHours (fixed_zone 0) (entry_date (fixed_zone 0) entry))
                 [newWeatherData 1704423600000 20 50, newWeatherData 1704430800000 22 60])
   \<and> hourly_world (fixed_zone 0)
       (holding (partition_path (fixed_zone 0) 1704412800000) (Json_text full_day))
   \<and> steady_ticks (fixed_zone 0) [(instant 1704499500000, Api_data 30 40)]
   \<and> readFileSync (partition_path (fixed_zone 0) 1704412800000)
       (schedule (fixed_zone 0) [(instant 1704499500000, Api_data 30 40)]
          (holding (partition_path (fixed_zone 0) 1704412800000) (Json_text full_day)))
     = Inr (Json_text full_day)
   \<and> length full_day = 24
   \<and> reading_from (fixed_zone 0) (partition_path (fixed_zone 0) 1704412800000)
       [(instant 1704585900000, Api_data 31 41)]
   \<and> distinct (map (\<lambda>entry. getHours (fixed_zone 0) (entry_date (fixed_zone 0) entry)) full_day)
   \<and> tree (schedule (fixed_zone 0) [(instant 1704585900000, Api_data 31 41)]
         (schedule (fixed_zone 0) [(instant 1704499500000, Api_data 30 40)]
          (holding (partition_path (fixed_zone 0) 1704412800000) (Json_text full_day))))
     = tree (schedule (fixed_zone 0) [(instant 1704499500000, Api_data 30 40)]
          (holding (partition_path (fixed_zone 0) 1704412800000) (Json_text full_day)))"
proof -
  let ?w = "holding (partition_path (fixed_zone 0) 1704412800000) (Json_text full_day)"
  let ?ticks = "[(first_call, Api_data 20 50), (second_call, Api_data 21 55),
                 (third_call, Api_data 22 60)]"
  have a: "hourly_world (fixed_zone 0) ?w"
    by (rule hourly_world_holding [OF hourly_full_day])
  have b: "steady_ticks (fixed_zone 0) [(instant 1704499500000, Api_data 30 40)]"
    by (simp add: steady_ticks_def steady_instant TimeClip_def)
  have r1: "reading_from (fixed_zone 0) (partition_path (fixed_zone 0) 1704412800000)
       [(instant 1704499500000, Api_data 30 40)]"
    and r2: "reading_from (fixed_zone 0) (partition_path (fixed_zone 0) 1704412800000)
       [(instant 1704585900000, Api_data 31 41)]"
    by (simp_all add: reading_from_def instant_def same_partition)
  have "tree (schedule (fixed_zone 0) [(instant 1704499500000, Api_data 30 40)] ?w) = tree ?w"
    by (rule full_schedule [OF _ hourly_full_day length_full_day r1]) simp
  from readFileSync_tree [OF this]
  have c: "readFileSync (partition_path (fixed_zone 0) 1704412800000)
       (schedule (fixed_zone 0) [(instant 1704499500000, Api_data 30 40)] ?w)
       = Inr (Json_text full_day)"
    by simp
  have d: "steady_ticks (fixed_zone 0) ?ticks"
    by (simp add: steady_ticks_def steady_examples)
  from hourly_invariant [OF a b] c length_full_day r2
  have full: "distinct (map (\<lambda>entry. getHours (fixed_zone 0) (entry_date (fixed_zone 0) entry))
                 full_day)
    \<and> tree (schedule (fixed_zone 0) [(instant 1704585900000, Api_data 31 41)]
         (schedule (fixed_zone 0) [(instant 1704499500000, Api_data 30 40)] ?w))
     = tree (schedule (fixed_zone 0) [(instant 1704499500000, Api_data 30 40)] ?w)"
    by blast
  from hourly_invariant [OF hourly_world_fresh d] run_example
  have run: "distinct (map (\<lambda>entry. getHours (fixed_zone 0) (entry_date (fixed_zone 0) entry))
                 [newWeatherData 1704423600000 20 50, newWeatherData 1704430800000 22 60])"
    by blast
  from a b c d r2 full run run_example length_full_day hourly_world_fresh show ?thesis
    by blast
qed

text \<open>
  Without the proviso the claim fails. The timestamp is \<^verbatim>\<open>Date.now()\<close> and the hour
  that is tested is that of a later \<^verbatim>\<open>new Date()\<close>: from the empty file system, an
  invocation at 03:00 and then one that stamps its reading at 03:59:59.999 and tests
  the hour at 04:00:00.000 leave two readings of hour 3 in the partition.
\<close>

theorem hourly_invariant_counterexample:
  "hourly_world (fixed_zone 0) fresh
   \<and> readFileSync (partition_path (fixed_zone 0) 1704423600000)
       (schedule (fixed_zone 0)
          [(instant 1704423600000, Api_data 20 50), (straddling_call, Api_data 21 55)] fresh)
     = Inr (Json_text [newWeatherData 1704423600000 20 50, newWeatherData 1704427199999 21 55])
   \<and> \<not> distinct (map (\<lambda>entry. getHours (fixed_zone 0) (entry_date (fixed_zone 0) entry))
                   [newWeatherData 1704423600000 20 50, newWeatherData 1704427199999 21 55])"
  using straddling_run hourly_world_fresh
  by (simp add: getHours_def entry_date_def newWeatherData_def TimeClip_def LocalTime_def
      fixed_zone_def hours_example)

section \<open>The query engine\<close>

lemma strict_eq_None [simp]: "strict_eq x None = False"
  by (cases x) auto

lemma getters_None [simp]:
  "getFullYear e None = None" "getMonth e None = None" "getDate e None = None"
  "getHours e None = None"
  by (simp_all add: getFullYear_def getMonth_def getDate_def getHours_def)

lemma filterData_Nil [simp]: "filterData e [] filterBy filterValue = []"
  by (simp add: filterData_def Let_def)

lemma fold_max_Max: "fold max ys (x::real) = Max (set (x # ys))"
  by (rule Max.set_eq_fold [symmetric])

lemma fold_min_Min: "fold min ys (x::real) = Min (set (x # ys))"
  by (rule Min.set_eq_fold [symmetric])

lemma Math_max_Max: "xs \<noteq> [] \<Longrightarrow> Math_max xs = Value (Max (set xs))"
  by (cases xs) (simp_all add: Math_max_def fold_max_Max del: set_simps)

lemma Math_min_Min: "xs \<noteq> [] \<Longrightarrow> Math_min xs = Value (Min (set xs))"
  by (cases xs) (simp_all add: Math_min_def fold_min_Min del: set_simps)

lemma filteredData_Some:
  "filteredData e (Some y) (Some m) (Some d) weatherData
   = filter (\<lambda>entry. getFullYear e (entry_date e entry) = Some y
                    \<and> getMonth e (entry_date e entry) = Some m
                    \<and> getDate e (entry_date e entry) = Some d) weatherData"
  by (simp add: filteredData_def Let_def)

lemma filteredData_NaN:
  "fYear = None \<or> fMonth = None \<or> fDay = None \<Longrightarrow> filteredData e fYear fMonth fDay weatherData = []"
  by (auto simp: filteredData_def Let_def)

lemma tempdata_computed:
  assumes "readWeatherData e now w = (Inr weatherData, w1)"
      and "filteredData e (filterYear e now date year) (filterMonth e now date month)
             (filterDay e now date) weatherData = selected"
      and "selected \<noteq> []"
  shows "get_tempdata e now date month year w
         = (\<lparr>status = 200,
             body = MinMaxDay (Math_max (map temperature selected))
                      (Math_min (map temperature selected))
                      (template (filterYear e now date year) @ ''-''
                       @ template (js_plus (filterMonth e now date month) 1) @ ''-''
                       @ template (filterDay e now date))\<rparr>, w1)"
  using assms by (simp add: get_tempdata_def Let_def)

lemma tempdata_found:
  assumes "readWeatherData e now w = (Inr weatherData, w1)"
      and "filteredData e (filterYear e now date year) (filterMonth e now date month)
             (filterDay e now date) weatherData = selected"
      and "selected \<noteq> []"
  shows "get_tempdata e now date month year w
         = (\<lparr>status = 200,
             body = MinMaxDay (Value (Max (temperature ` set selected)))
                      (Value (Min (temperature ` set selected)))
                      (template (filterYear e now date year) @ ''-''
                       @ template (js_plus (filterMonth e now date month) 1) @ ''-''
                       @ template (filterDay e now date))\<rparr>, w1)"
  using assms by (simp add: get_tempdata_def Let_def Math_max_Max Math_min_Min)

lemma defaults:
  "filterYear e now Undefined Undefined = Some (YearFromTime (LocalTime e now))"
  "filterMonth e now Undefined Undefined = Some (MonthFromTime (LocalTime e now))"
  "filterDay e now Undefined = Some (DateFromTime (LocalTime e now))"
  by (simp_all add: filterYear_def filterMonth_def filterDay_def filterDate_def getFullYear_def
      getMonth_def getDate_def)

lemma tempdata_empty:
  assumes "readWeatherData e now w = (Inr weatherData, w1)"
      and "filteredData e (filterYear e now date year) (filterMonth e now date month)
             (filterDay e now date) weatherData = []"
  shows "get_tempdata e now date month year w
         = (\<lparr>status = 404, body = Message ''No data available for the specified day.''\<rparr>, w1)"
  using assms by (simp add: get_tempdata_def Let_def)

lemma tempdata_aggregate_finite:
  assumes "body (fst (get_tempdata e now date month year w)) = MinMaxDay hi lo day"
  shows "\<exists>x y. hi = Value x \<and> lo = Value y"
proof (cases "readWeatherData e now w")
  case (Pair r w1)
  show ?thesis
  proof (cases r)
    case (Inl err)
    with Pair assms show ?thesis
      by (simp add: get_tempdata_def)
  next
    case (Inr weatherData)
    let ?sel = "filteredData e (filterYear e now date year) (filterMonth e now date month)
                  (filterDay e now date) weatherData"
    from Pair Inr have r: "readWeatherData e now w = (Inr weatherData, w1)"
      by simp
    show ?thesis
    proof (cases "?sel = []")
      case True
      from tempdata_empty [OF r True] assms show ?thesis
        by simp
    next
      case False
      from tempdata_found [OF r refl False] assms show ?thesis
        by auto
    qed
  qed
qed

text \<open>Values of the parsers and of the calendar fields that the examples below use.\<close>

lemma parseInt_x: "parseInt_string ''x'' None = None"
  by code_simp

lemma parseInt_stamp: "parseInt_string ''42'' None = Some 42"
  by code_simp

lemma iso_date_abc: "iso_date ''abc'' = None"
  by code_simp

lemma iso_date_2099: "iso_date ''2099-01-01'' = Some 4070908800000"
  by code_simp

lemma fields_more:
  "YearFromTime 1704484800000 = 2024" "MonthFromTime 1704484800000 = 0"
  "DateFromTime 1704484800000 = 5"
  "YearFromTime 1704510000000 = 2024" "MonthFromTime 1704510000000 = 0"
  "DateFromTime 1704510000000 = 6"
  "YearFromTime 1704470400000 = 2024" "MonthFromTime 1704470400000 = 0"
  "DateFromTime 1704470400000 = 5"
  "YearFromTime 4070908800000 = 2099" "MonthFromTime 4070908800000 = 0"
  "DateFromTime 4070908800000 = 1"
  by code_simp+

lemma template_values:
  "template (Some 2024) = ''2024''" "template (Some 1) = ''1''" "template (Some 5) = ''5''"
  by code_simp+

lemma sample_fields:
  assumes "\<bar>t\<bar> \<le> 8640000000000000"
  shows "getFullYear (fixed_zone 0) (entry_date (fixed_zone 0) (sample c t)) = Some (YearFromTime t)"
    and "getMonth (fixed_zone 0) (entry_date (fixed_zone 0) (sample c t)) = Some (MonthFromTime t)"
    and "getDate (fixed_zone 0) (entry_date (fixed_zone 0) (sample c t)) = Some (DateFromTime t)"
    and "getHours (fixed_zone 0) (entry_date (fixed_zone 0) (sample c t)) = Some (HourFromTime t)"
  using stamped_getters [OF stamped_at_sample [of t 0 c]] assms by simp_all

lemma january_5_today:
  "filter (\<lambda>entry.
       getFullYear (fixed_zone 0) (entry_date (fixed_zone 0) entry) = Some 2024
       \<and> getMonth (fixed_zone 0) (entry_date (fixed_zone 0) entry) = Some 0
       \<and> getDate (fixed_zone 0) (entry_date (fixed_zone 0) entry) = Some 5) january_5
   = [sample 10 1704423600000, sample 22 1704463200000, sample 15 1704484800000]"
  by (simp add: january_5_def sample_fields fields_5_Jan_3h fields_5_Jan_14h fields_more)

lemma read_january_5:
  "readWeatherData (fixed_zone 0) 1704470400000
     (holding (partition_path (fixed_zone 0) 1704470400000) (Json_text january_5))
   = (Inr january_5, holding (partition_path (fixed_zone 0) 1704470400000) (Json_text january_5))"
  by (rule readWeatherData_stored) simp

lemma tempdata_january_5:
  "get_tempdata (fixed_zone 0) 1704470400000 Undefined Undefined Undefined
     (holding (partition_path (fixed_zone 0) 1704470400000) (Json_text january_5))
   = (\<lparr>status = 200, body = MinMaxDay (Value 22) (Value 10) ''2024-1-5''\<rparr>,
      holding (partition_path (fixed_zone 0) 1704470400000) (Json_text january_5))"
proof -
  have l: "LocalTime (fixed_zone 0) 1704470400000 = 1704470400000"
    by (simp add: LocalTime_def fixed_zone_def)
  have f: "filteredData (fixed_zone 0) (filterYear (fixed_zone 0) 1704470400000 Undefined Undefined)
             (filterMonth (fixed_zone 0) 1704470400000 Undefined Undefined)
             (filterDay (fixed_zone 0) 1704470400000 Undefined) january_5
           = [sample 10 1704423600000, sample 22 1704463200000, sample 15 1704484800000]"
    by (simp add: defaults l fields_more filteredData_Some january_5_today)
  show ?thesis
    unfolding tempdata_computed [OF read_january_5 f list.distinct(2)]
    by (simp add: defaults l fields_more js_plus_def template_values Math_max_def Math_min_def
        sample_def del: template.simps)
qed

text \<open>
  C4. \<^verbatim>\<open>findMinMaxTemperature\<close> (part_000) on the empty sequence, and on any
  sequence of which the filter keeps nothing, returns \<^verbatim>\<open>{highest: null, lowest: null}\<close>;
  when the filter keeps something it returns the greatest and the least temperature.
  So neither field is ever an infinity, and on the empty sequence neither is zero. The
  function is total: it does not throw. server.js has no such function: it takes
  \<^verbatim>\<open>Math.max\<close> and \<^verbatim>\<open>Math.min\<close> in the handler, after the 404 guard, so the
  aggregate it sends is a temperature in both fields as well.
\<close>

theorem aggregate_empty:
  "findMinMaxTemperature e [] filterBy filterValue = \<lparr>highest = Null, lowest = Null\<rparr>
   \<and> (filterData e data filterBy filterValue = [] \<longrightarrow>
        findMinMaxTemperature e data filterBy filterValue = \<lparr>highest = Null, lowest = Null\<rparr>)
   \<and> (filterData e data filterBy filterValue \<noteq> [] \<longrightarrow>
        findMinMaxTemperature e data filterBy filterValue
        = \<lparr>highest = Value (Max (temperature ` set (filterData e data filterBy filterValue))),
           lowest = Value (Min (temperature ` set (filterData e data filterBy filterValue)))\<rparr>)
   \<and> highest (findMinMaxTemperature e data filterBy filterValue) \<noteq> NegInfinity
   \<and> highest (findMinMaxTemperature e data filterBy filterValue) \<noteq> PosInfinity
   \<and> lowest (findMinMaxTemperature e data filterBy filterValue) \<noteq> NegInfinity
   \<and> lowest (findMinMaxTemperature e data filterBy filterValue) \<noteq> PosInfinity
   \<and> highest (findMinMaxTemperature e [] filterBy filterValue) \<noteq> Value 0
   \<and> lowest (findMinMaxTemperature e [] filterBy filterValue) \<noteq> Value 0
   \<and> (body (fst (get_tempdata e now date month year w)) = MinMaxDay hi lo day \<longrightarrow>
        (\<exists>x y. hi = Value x \<and> lo = Value y))"
  using tempdata_aggregate_finite [of e now date month year w hi lo day]
  by (simp add: findMinMaxTemperature_def Let_def Math_max_Max Math_min_Min)

theorem aggregate_empty_witness:
  "filterData (fixed_zone 0) [sample 20 1704423600000] (Str ''hour'') (Str ''x'') = []
   \<and> findMinMaxTemperature (fixed_zone 0) [sample 20 1704423600000] (Str ''hour'') (Str ''x'')
     = \<lparr>highest = Null, lowest = Null\<rparr>
   \<and> filterData (fixed_zone 0) [sample 20 42] (Str ''timestamp'')
       (Str ''42'') \<noteq> []
   \<and> findMinMaxTemperature (fixed_zone 0) [sample 20 42] (Str ''timestamp'')
       (Str ''42'')
     = \<lparr>highest = Value 20, lowest = Value 20\<rparr>
   \<and> body (fst (get_tempdata (fixed_zone 0) 1704470400000 Undefined Undefined Undefined
        (holding (partition_path (fixed_zone 0) 1704470400000) (Json_text january_5))))
     = MinMaxDay (Value 22) (Value 10) ''2024-1-5''"
proof -
  have a: "filterData (fixed_zone 0) [sample 20 1704423600000] (Str ''hour'') (Str ''x'') = []"
    by (simp add: filterData_def parseInt_x)
  have b: "filterData (fixed_zone 0) [sample 20 42] (Str ''timestamp'')
       (Str ''42'') = [sample 20 42]"
    by (simp add: filterData_def parseInt_stamp sample_def)
  from a b tempdata_january_5
    aggregate_empty [of "fixed_zone 0" "Str ''hour''" "Str ''x''" "[sample 20 1704423600000]"]
    aggregate_empty [of "fixed_zone 0" "Str ''timestamp''" "Str ''42''" "[sample 20 42]"]
  show ?thesis
    by (simp add: sample_def)
qed

text \<open>
  C10. \<^verbatim>\<open>filterData\<close> is a total function. For the criteria \<^verbatim>\<open>day\<close>, \<^verbatim>\<open>month\<close> and
  \<^verbatim>\<open>year\<close> a value that \<^verbatim>\<open>new Date\<close> makes an Invalid Date of, and for \<^verbatim>\<open>hour\<close>
  and \<^verbatim>\<open>timestamp\<close> a value that \<^verbatim>\<open>parseInt\<close> makes \<^verbatim>\<open>NaN\<close> of, gives the empty
  sequence; an absent value (\<^verbatim>\<open>undefined\<close>) is such a value for both; and any other
  criterion returns the input unchanged.
\<close>

theorem filterData_total:
  "(filterBy \<in> {Str ''day'', Str ''month'', Str ''year''} \<and> new_Date e filterValue = None
      \<longrightarrow> filterData e data filterBy filterValue = [])
   \<and> (filterBy \<in> {Str ''hour'', Str ''timestamp''} \<and> parseInt filterValue None = None
      \<longrightarrow> filterData e data filterBy filterValue = [])
   \<and> new_Date e Undefined = None \<and> parseInt Undefined None = None
   \<and> (filterBy \<notin> {Str ''day'', Str ''month'', Str ''year'', Str ''hour'', Str ''timestamp''}
      \<longrightarrow> filterData e data filterBy filterValue = data)"
  by (auto simp: filterData_def Let_def)

theorem filterData_total_witness:
  "new_Date (fixed_zone 0) (Str ''abc'') = None
   \<and> filterData (fixed_zone 0) [sample 20 1704423600000] (Str ''day'') (Str ''abc'') = []
   \<and> filterData (fixed_zone 0) [sample 20 1704423600000] (Str ''month'') Undefined = []
   \<and> parseInt (Str ''x'') None = None
   \<and> filterData (fixed_zone 0) [sample 20 1704423600000] (Str ''hour'') (Str ''x'') = []
   \<and> filterData (fixed_zone 0) [sample 20 1704423600000] (Str ''timestamp'') Undefined = []
   \<and> filterData (fixed_zone 0) [sample 20 1704423600000] (Str ''week'') (Str ''x'')
     = [sample 20 1704423600000]"
proof -
  have a: "new_Date (fixed_zone 0) (Str ''abc'') = None"
    by (simp add: Date_parse_def iso_date_abc fixed_zone_def)
  have b: "parseInt (Str ''x'') None = None"
    by (simp add: parseInt_x)
  from a b
    filterData_total [of "Str ''day''" "fixed_zone 0" "Str ''abc''" "[sample 20 1704423600000]"]
    filterData_total [of "Str ''month''" "fixed_zone 0" Undefined "[sample 20 1704423600000]"]
    filterData_total [of "Str ''hour''" "fixed_zone 0" "Str ''x''" "[sample 20 1704423600000]"]
    filterData_total [of "Str ''timestamp''" "fixed_zone 0" Undefined "[sample 20 1704423600000]"]
    filterData_total [of "Str ''week''" "fixed_zone 0" "Str ''x''" "[sample 20 1704423600000]"]
  show ?thesis
    by simp
qed

text \<open>
  The older variant of \<^verbatim>\<open>GET /tempdata\<close> (part_000) never answers 404: with nothing
  stored it answers 200 with \<^verbatim>\<open>{highest: null, lowest: null}\<close>. And \<^verbatim>\<open>GET /weather\<close>
  without \<^verbatim>\<open>filterBy\<close> returns the whole partition.
\<close>

lemma tempdata_old_status:
  "status (fst (get_tempdata_old e now filterBy filterValue w)) \<in> {200, 500}"
  by (simp add: get_tempdata_old_def Let_def split: prod.splits sum.splits)

lemma tempdata_old_no_data:
  assumes "readWeatherData e now w = (Inr [], w1)"
  shows "get_tempdata_old e now filterBy filterValue w
         = (\<lparr>status = 200, body = MinMax Null Null\<rparr>, w1)"
  using assms by (simp add: get_tempdata_old_def Let_def findMinMaxTemperature_def)

lemma weather_unfiltered:
  assumes "readWeatherData e now w = (Inr weatherData, w1)"
  shows "get_weather e now Undefined filterValue w
         = (\<lparr>status = 200, body = Readings weatherData\<rparr>, w1)"
  using assms by (simp add: get_weather_def)

text \<open>
  C3. When \<^verbatim>\<open>readWeatherData\<close> returns and the conjunctive filter on year, month and
  day keeps no reading, \<^verbatim>\<open>GET /tempdata\<close> (server.js) answers with status 404 and the
  body \<^verbatim>\<open>{message: "No data available for the specified day."}\<close>.
\<close>

theorem tempdata_not_found:
  assumes "readWeatherData e now w = (Inr weatherData, w1)"
      and "filteredData e (filterYear e now date year) (filterMonth e now date month)
             (filterDay e now date) weatherData = []"
  shows "get_tempdata e now date month year w
         = (\<lparr>status = 404, body = Message ''No data available for the specified day.''\<rparr>, w1)"
  using assms by (rule tempdata_empty)

theorem tempdata_not_found_witness:
  "readWeatherData (fixed_zone 0) 1704470400000
     (holding (partition_path (fixed_zone 0) 1704470400000) (Json_text january_5))
   = (Inr january_5, holding (partition_path (fixed_zone 0) 1704470400000) (Json_text january_5))
   \<and> filteredData (fixed_zone 0)
        (filterYear (fixed_zone 0) 1704470400000 (Str ''2099-01-01'') Undefined)
        (filterMonth (fixed_zone 0) 1704470400000 (Str ''2099-01-01'') Undefined)
        (filterDay (fixed_zone 0) 1704470400000 (Str ''2099-01-01'')) january_5 = []
   \<and> get_tempdata (fixed_zone 0) 1704470400000 (Str ''2099-01-01'') Undefined Undefined
        (holding (partition_path (fixed_zone 0) 1704470400000) (Json_text january_5))
     = (\<lparr>status = 404, body = Message ''No data available for the specified day.''\<rparr>,
        holding (partition_path (fixed_zone 0) 1704470400000) (Json_text january_5))"
proof -
  let ?w = "holding (partition_path (fixed_zone 0) 1704470400000) (Json_text january_5)"
  have a: "readWeatherData (fixed_zone 0) 1704470400000 ?w = (Inr january_5, ?w)"
    by (rule readWeatherData_stored) simp
  have y: "filterYear (fixed_zone 0) 1704470400000 (Str ''2099-01-01'') Undefined = Some 2099"
    by (simp add: filterYear_def filterDate_def Date_parse_def iso_date_2099 getFullYear_def
        LocalTime_def fixed_zone_def fields_more)
  have b: "filteredData (fixed_zone 0)
        (filterYear (fixed_zone 0) 1704470400000 (Str ''2099-01-01'') Undefined)
        (filterMonth (fixed_zone 0) 1704470400000 (Str ''2099-01-01'') Undefined)
        (filterDay (fixed_zone 0) 1704470400000 (Str ''2099-01-01'')) january_5 = []"
    unfolding y
    by (simp add: filteredData_def january_5_def sample_fields fields_5_Jan_3h fields_5_Jan_14h
        fields_more)
  from a b tempdata_not_found [OF a b] show ?thesis
    by simp
qed

text \<open>
  C6. \<^verbatim>\<open>GET /tempdata\<close> (server.js) takes the year from \<^verbatim>\<open>year\<close> when given and the
  month from \<^verbatim>\<open>month\<close> (less one) when given, and otherwise both from the filter date;
  the day always from the filter date; and the filter date is \<^verbatim>\<open>date\<close> when given
  and the current instant otherwise. When the three are numbers and some reading of the
  partition has that local year, month and day, the answer is 200 with the greatest and
  least temperature of those readings and the day \<^verbatim>\<open>year-(month+1)-day\<close>. With no
  parameters, and the readings of today having the temperatures 10, 22 and 15, the
  answer is 200 with highest 22, lowest 10 and today's date.
\<close>

theorem tempdata_day_query:
  assumes "readWeatherData e now w = (Inr weatherData, w1)"
  shows
   "(truthy year \<longrightarrow> filterYear e now date year = parseInt year (Some 10))
    \<and> (\<not> truthy year \<longrightarrow> filterYear e now date year = getFullYear e (filterDate e now date))
    \<and> (truthy month \<longrightarrow> filterMonth e now date month = js_minus (parseInt month (Some 10)) 1)
    \<and> (\<not> truthy month \<longrightarrow> filterMonth e now date month = getMonth e (filterDate e now date))
    \<and> filterDay e now date = getDate e (filterDate e now date)
    \<and> (truthy date \<longrightarrow> filterDate e now date = new_Date e date)
    \<and> (\<not> truthy date \<longrightarrow> filterDate e now date = Some now)
    \<and> (filterYear e now date year = Some y \<and> filterMonth e now date month = Some m
        \<and> filterDay e now date = Some d
        \<and> filter (\<lambda>entry. getFullYear e (entry_date e entry) = Some y
                        \<and> getMonth e (entry_date e entry) = Some m
                        \<and> getDate e (entry_date e entry) = Some d) weatherData \<noteq> []
        \<longrightarrow> get_tempdata e now date month year w
            = (\<lparr>status = 200,
                body = MinMaxDay
                  (Value (Max (set (map temperature (filter (\<lambda>entry.
                      getFullYear e (entry_date e entry) = Some y
                      \<and> getMonth e (entry_date e entry) = Some m
                      \<and> getDate e (entry_date e entry) = Some d) weatherData)))))
                  (Value (Min (set (map temperature (filter (\<lambda>entry.
                      getFullYear e (entry_date e entry) = Some y
                      \<and> getMonth e (entry_date e entry) = Some m
                      \<and> getDate e (entry_date e entry) = Some d) weatherData)))))
                  (template (Some y) @ ''-'' @ template (Some (m + 1)) @ ''-''
                   @ template (Some d))\<rparr>, w1))
    \<and> (map temperature (filter (\<lambda>entry.
             getFullYear e (entry_date e entry) = Some (YearFromTime (LocalTime e now))
             \<and> getMonth e (entry_date e entry) = Some (MonthFromTime (LocalTime e now))
             \<and> getDate e (entry_date e entry) = Some (DateFromTime (LocalTime e now)))
           weatherData) = [10, 22, 15]
        \<longrightarrow> get_tempdata e now Undefined Undefined Undefined w
            = (\<lparr>status = 200,
                body = MinMaxDay (Value 22) (Value 10)
                  (template (Some (YearFromTime (LocalTime e now))) @ ''-''
                   @ template (Some (MonthFromTime (LocalTime e now) + 1)) @ ''-''
                   @ template (Some (DateFromTime (LocalTime e now))))\<rparr>, w1))"
proof (intro conjI impI)
  let ?sel = "filter (\<lambda>entry. getFullYear e (entry_date e entry) = Some y
                          \<and> getMonth e (entry_date e entry) = Some m
                          \<and> getDate e (entry_date e entry) = Some d) weatherData"
  assume a: "filterYear e now date year = Some y \<and> filterMonth e now date month = Some m
          \<and> filterDay e now date = Some d \<and> ?sel \<noteq> []"
  then have f: "filteredData e (filterYear e now date year) (filterMonth e now date month)
             (filterDay e now date) weatherData = ?sel"
    by (simp add: filteredData_Some)
  from a have ne: "?sel \<noteq> []" and "map temperature ?sel \<noteq> []"
    by simp_all
  then show "get_tempdata e now date month year w
              = (\<lparr>status = 200,
                  body = MinMaxDay (Value (Max (set (map temperature ?sel))))
                    (Value (Min (set (map temperature ?sel))))
                    (template (Some y) @ ''-'' @ template (Some (m + 1)) @ ''-''
                     @ template (Some d))\<rparr>, w1)"
    unfolding tempdata_computed [OF assms f ne]
    using a by (simp only: Math_max_Max Math_min_Min js_plus_def option.map)
next
  let ?today = "filter (\<lambda>entry.
             getFullYear e (entry_date e entry) = Some (YearFromTime (LocalTime e now))
             \<and> getMonth e (entry_date e entry) = Some (MonthFromTime (LocalTime e now))
             \<and> getDate e (entry_date e entry) = Some (DateFromTime (LocalTime e now)))
           weatherData"
  assume t: "map temperature ?today = [10, 22, 15]"
  then have ne: "?today \<noteq> []" by auto
  have f: "filteredData e (filterYear e now Undefined Undefined)
             (filterMonth e now Undefined Undefined) (filterDay e now Undefined) weatherData
           = ?today"
    by (simp add: defaults filteredData_Some)
  have m: "Math_max [10, 22, 15] = Value 22" "Math_min [10, 22, 15] = Value 10"
    by (simp_all add: Math_max_def Math_min_def)
  show "get_tempdata e now Undefined Undefined Undefined w
            = (\<lparr>status = 200,
                body = MinMaxDay (Value 22) (Value 10)
                  (template (Some (YearFromTime (LocalTime e now))) @ ''-''
                   @ template (Some (MonthFromTime (LocalTime e now) + 1)) @ ''-''
                   @ template (Some (DateFromTime (LocalTime e now))))\<rparr>, w1)"
    unfolding tempdata_computed [OF assms f ne] t m
    by (simp add: defaults js_plus_def del: template.simps)
qed (simp_all add: filterYear_def filterMonth_def filterDay_def filterDate_def)

theorem tempdata_day_query_witness:
  "readWeatherData (fixed_zone 0) 1704470400000
     (holding (partition_path (fixed_zone 0) 1704470400000) (Json_text january_5))
   = (Inr january_5, holding (partition_path (fixed_zone 0) 1704470400000) (Json_text january_5))
   \<and> get_tempdata (fixed_zone 0) 1704470400000 Undefined Undefined Undefined
        (holding (partition_path (fixed_zone 0) 1704470400000) (Json_text january_5))
     = (\<lparr>status = 200, body = MinMaxDay (Value 22) (Value 10) ''2024-1-5''\<rparr>,
        holding (partition_path (fixed_zone 0) 1704470400000) (Json_text january_5))
   \<and> get_tempdata (fixed_zone 0) 1704470400000 (Str ''2024-01-05'') (Str ''1'') (Str ''2024'')
        (holding (partition_path (fixed_zone 0) 1704470400000) (Json_text january_5))
     = (\<lparr>status = 200, body = MinMaxDay (Value 22) (Value 10) ''2024-1-5''\<rparr>,
        holding (partition_path (fixed_zone 0) 1704470400000) (Json_text january_5))"
proof -
  let ?w = "holding (partition_path (fixed_zone 0) 1704470400000) (Json_text january_5)"
  let ?today = "filter (\<lambda>entry.
       getFullYear (fixed_zone 0) (entry_date (fixed_zone 0) entry) = Some 2024
       \<and> getMonth (fixed_zone 0) (entry_date (fixed_zone 0) entry) = Some 0
       \<and> getDate (fixed_zone 0) (entry_date (fixed_zone 0) entry) = Some 5) january_5"
  have a: "readWeatherData (fixed_zone 0) 1704470400000 ?w = (Inr january_5, ?w)"
    by (rule readWeatherData_stored) simp
  have l: "LocalTime (fixed_zone 0) 1704470400000 = 1704470400000"
    by (simp add: LocalTime_def fixed_zone_def)
  have t: "?today = [sample 10 1704423600000, sample 22 1704463200000, sample 15 1704484800000]"
    by (simp add: january_5_def sample_fields fields_5_Jan_3h fields_5_Jan_14h fields_more)
  have p: "parseInt_string ''1'' (Some 10) = Some 1" "parseInt_string ''2024'' (Some 10) = Some 2024"
    by code_simp+
  have d: "filterYear (fixed_zone 0) 1704470400000 (Str ''2024-01-05'') (Str ''2024'') = Some 2024"
    "filterMonth (fixed_zone 0) 1704470400000 (Str ''2024-01-05'') (Str ''1'') = Some 0"
    "filterDay (fixed_zone 0) 1704470400000 (Str ''2024-01-05'') = Some 5"
    by (simp_all add: filterYear_def filterMonth_def filterDay_def filterDate_def p js_minus_def
        Date_parse_def iso_date_2024_01_05 getDate_def LocalTime_def fixed_zone_def fields_midnight)
  have one: "get_tempdata (fixed_zone 0) 1704470400000 Undefined Undefined Undefined ?w
     = (\<lparr>status = 200, body = MinMaxDay (Value 22) (Value 10) ''2024-1-5''\<rparr>, ?w)"
    using tempdata_day_query [OF a, of Undefined Undefined Undefined]
    unfolding l fields_more t
    by (simp add: sample_def template_values del: template.simps)
  have two: "get_tempdata (fixed_zone 0) 1704470400000 (Str ''2024-01-05'') (Str ''1'') (Str ''2024'') ?w
     = (\<lparr>status = 200, body = MinMaxDay (Value 22) (Value 10) ''2024-1-5''\<rparr>, ?w)"
    using tempdata_day_query [OF a, where year = "Str ''2024''" and date = "Str ''2024-01-05''"
        and month = "Str ''1''" and y = 2024 and m = 0 and d = 5]
    unfolding d t
    by (simp add: sample_def template_values del: template.simps)
  from a one two show ?thesis
    by simp
qed

end
